theory Spec2Isabelle
  imports Main
begin

section \<open>Data model (src/src/types.ts)\<close>

text \<open>
  The four values of \<^verbatim>\<open>ConnectionState\<close>. JavaScript numbers that can be
  non-finite where the source tests them (\<^verbatim>\<open>Number.isFinite\<close>) are \<open>jsnum\<close>:
  a finite value, or \<open>NaN\<close> standing for every non-finite one. Wall-clock
  milliseconds (\<^verbatim>\<open>Date.now()\<close>) and the idle budget, which the source stores only
  after the finiteness test, are \<open>int\<close>.
\<close>

datatype ConnectionState = Connecting | Ready | Closed | Error

datatype jsnum = Num int | NaN

text \<open>Handles of the libraries: a PTY stream of ssh2 and a peer socket of ws are
  named by a number; the ssh2 client of a connection is named by the connection's id.\<close>

type_synonym ClientChannel = nat
type_synonym WebSocket = nat

datatype ReadyState = CONNECTING | OPEN | CLOSING | CLOSED

record Meta =
  host :: string
  port :: jsnum
  username :: string

record ManagedConnection =
  conn_id :: string
  state :: ConnectionState
  createdAt :: int
  lastActivityAt :: int
  shell :: "ClientChannel option"
  clients :: "WebSocket list"
  cols :: jsnum
  rows :: jsnum
  idleTimeoutMs :: int
  meta :: Meta

datatype Reason =
  r_created | r_deleted | r_state | r_ws_attached | r_ws_detached | r_resize | r_idle_timeout

record Counts =
  total :: nat
  ready :: nat
  connecting :: nat
  error :: nat
  closed :: nat

record ConnectionsSseSummary =
  version :: nat
  ts :: int
  reason :: Reason
  changedIds :: "string list option"
  counts :: Counts

text \<open>What a peer sends: a text frame or a binary one.\<close>

datatype RawData = Str string | Buf string

text \<open>
  The object \<^verbatim>\<open>JSON.parse\<close> returns, read through the only accesses the source
  makes: \<open>type_field\<close> is \<open>Some s\<close> when \<^verbatim>\<open>typeof obj.type === "string"\<close>;
  \<open>cols_field\<close> and \<open>rows_field\<close> are \<open>Some n\<close> when \<^verbatim>\<open>Number.isFinite\<close> holds of the
  field; \<open>data_field\<close> is \<^verbatim>\<open>String(obj.data ?? "")\<close>.
\<close>

record ControlMessage =
  type_field :: "string option"
  cols_field :: "int option"
  rows_field :: "int option"
  data_field :: string

section \<open>The engine state (module variables of src/src/server.ts)\<close>

text \<open>Every call the server makes on a library handle, in the order made.\<close>

datatype Call =
    ws_close WebSocket nat string
  | ws_send WebSocket RawData
  | shell_write string RawData
  | shell_setWindow string jsnum jsnum
  | shell_close string
  | ssh_end string
  | ssh_connect string string jsnum string string
  | ssh_shell string jsnum jsnum
  | sse_event nat nat ConnectionsSseSummary

text \<open>Where the promise of \<^verbatim>\<open>createConnection\<close> stands: waiting for the ssh client,
  waiting for the shell callback, or settled.\<close>

datatype Phase = AwaitSsh | AwaitShell | Settled

text \<open>
  \<open>connections\<close> holds the keys of the \<^verbatim>\<open>Map\<close> in insertion order and \<open>heap\<close> the
  connection objects by id: the closures registered on library handles keep a
  reference to their object after the key has left the \<^verbatim>\<open>Map\<close>. \<open>readyState\<close> is
  the field the ws library maintains on each socket. \<open>attached\<close> records the closure
  variables \<^verbatim>\<open>(conn, readOnly)\<close> of the handlers \<^verbatim>\<open>attachWebSocket\<close> registers on a
  socket. \<open>published\<close> lists the summaries built by \<^verbatim>\<open>bumpAndNotify\<close>.
\<close>

record Engine =
  connections :: "string list"
  heap :: "string \<Rightarrow> ManagedConnection option"
  connectionsVersion :: nat
  sseClients :: "nat list"
  sseSeq :: nat
  readyState :: "WebSocket \<Rightarrow> ReadyState"
  attached :: "WebSocket \<Rightarrow> (string \<times> bool) option"
  pending :: "string \<Rightarrow> Phase option"
  calls :: "Call list"
  published :: "ConnectionsSseSummary list"

record Config =
  MAX_CONNECTIONS :: int
  DEFAULT_IDLE_TIMEOUT_MS :: int
  BASE_PATH :: string
  JSON_parse :: "string \<Rightarrow> ControlMessage option"

definition init :: Engine where
  "init = \<lparr> connections = [], heap = (\<lambda>_. None), connectionsVersion = 0,
            sseClients = [], sseSeq = 0, readyState = (\<lambda>_. CLOSED),
            attached = (\<lambda>_. None), pending = (\<lambda>_. None), calls = [], published = [] \<rparr>"

section \<open>Helpers of server.ts\<close>

definition call :: "Call \<Rightarrow> Engine \<Rightarrow> Engine" where
  "call c e = e\<lparr>calls := calls e @ [c]\<rparr>"

definition modify :: "string \<Rightarrow> (ManagedConnection \<Rightarrow> ManagedConnection) \<Rightarrow> Engine \<Rightarrow> Engine" where
  "modify cid f e = (case heap e cid of None \<Rightarrow> e
                     | Some conn \<Rightarrow> e\<lparr>heap := (heap e)(cid \<mapsto> f conn)\<rparr>)"

definition safeCloseWs :: "WebSocket \<Rightarrow> nat \<Rightarrow> string \<Rightarrow> Engine \<Rightarrow> Engine" where
  "safeCloseWs ws code why e = call (ws_close ws code why) e"

definition touch :: "int \<Rightarrow> ManagedConnection \<Rightarrow> ManagedConnection" where
  "touch t conn = conn\<lparr>lastActivityAt := t\<rparr>"

text \<open>\<^verbatim>\<open>connections.values()\<close>.\<close>

definition connections_values :: "Engine \<Rightarrow> ManagedConnection list" where
  "connections_values e = List.map_filter (heap e) (connections e)"

definition count1 :: "Counts \<Rightarrow> ManagedConnection \<Rightarrow> Counts" where
  "count1 acc c =
     (let acc = acc\<lparr>total := total acc + 1\<rparr> in
      if state c = Ready then acc\<lparr>ready := ready acc + 1\<rparr>
      else if state c = Connecting then acc\<lparr>connecting := connecting acc + 1\<rparr>
      else if state c = Error then acc\<lparr>error := error acc + 1\<rparr>
      else acc\<lparr>closed := closed acc + 1\<rparr>)"

definition computeCounts :: "Engine \<Rightarrow> Counts" where
  "computeCounts e =
     foldl count1 \<lparr>total = 0, ready = 0, connecting = 0, error = 0, closed = 0\<rparr>
       (connections_values e)"

definition sseSend :: "nat \<Rightarrow> ConnectionsSseSummary \<Rightarrow> Engine \<Rightarrow> Engine" where
  "sseSend res data e =
     (let e1 = e\<lparr>sseSeq := sseSeq e + 1\<rparr> in call (sse_event res (sseSeq e1) data) e1)"

definition bumpAndNotify :: "int \<Rightarrow> Reason \<Rightarrow> string list option \<Rightarrow> Engine \<Rightarrow> Engine" where
  "bumpAndNotify t why changed e =
     (let e1 = e\<lparr>connectionsVersion := connectionsVersion e + 1\<rparr>;
          summary = \<lparr>version = connectionsVersion e1, ts = t, reason = why,
                     changedIds = changed, counts = computeCounts e1\<rparr>;
          e2 = e1\<lparr>published := published e1 @ [summary]\<rparr>
      in foldl (\<lambda>e' res. sseSend res summary e') e2 (sseClients e2))"

section \<open>Snapshot and event stream\<close>

record ConnectionView =
  v_id :: string
  v_state :: ConnectionState
  v_createdAt :: int
  v_lastActivityAt :: int
  v_idleTimeoutMs :: int
  v_attachedClients :: nat
  v_meta :: Meta

record Snapshot =
  s_version :: nat
  s_ts :: int
  s_connections :: "ConnectionView list"

definition view :: "Engine \<Rightarrow> ManagedConnection \<Rightarrow> ConnectionView" where
  "view e c = \<lparr> v_id = conn_id c, v_state = state c, v_createdAt = createdAt c,
                v_lastActivityAt = lastActivityAt c, v_idleTimeoutMs = idleTimeoutMs c,
                v_attachedClients = length (filter (\<lambda>w. readyState e w = OPEN) (clients c)),
                v_meta = meta c \<rparr>"

definition connectionsSnapshot :: "int \<Rightarrow> Engine \<Rightarrow> Snapshot" where
  "connectionsSnapshot t e =
     \<lparr> s_version = connectionsVersion e, s_ts = t,
       s_connections = map (view e) (connections_values e) \<rparr>"

text \<open>\<^verbatim>\<open>handleSse\<close>: the subscriber joins the set and receives the initial summary, which
  is not a publication (the version does not move). \<open>sse_cleanup\<close> is its close handler.\<close>

definition handleSse :: "int \<Rightarrow> nat \<Rightarrow> Engine \<Rightarrow> Engine" where
  "handleSse t res e =
     (let e1 = e\<lparr>sseClients := (if res \<in> set (sseClients e) then sseClients e
                                  else sseClients e @ [res])\<rparr>
      in sseSend res \<lparr>version = connectionsVersion e1, ts = t, reason = r_state,
                      changedIds = None, counts = computeCounts e1\<rparr> e1)"

definition sse_cleanup :: "nat \<Rightarrow> Engine \<Rightarrow> Engine" where
  "sse_cleanup res e = e\<lparr>sseClients := filter (\<lambda>r. r \<noteq> res) (sseClients e)\<rparr>"

section \<open>Control frames\<close>

text \<open>\<^verbatim>\<open>String.prototype.trim\<close> on the ASCII white space: space, TAB, LF, VT, FF, CR.\<close>

definition is_space :: "char \<Rightarrow> bool" where
  "is_space c = (c \<in> set [CHR '' '', CHR 0x09, CHR 0x0A, CHR 0x0B, CHR 0x0C, CHR 0x0D])"

definition trim :: "string \<Rightarrow> string" where
  "trim s = rev (dropWhile is_space (rev (dropWhile is_space s)))"

definition startsWith :: "string \<Rightarrow> string \<Rightarrow> bool" where
  "startsWith s p = (take (length p) s = p)"

definition endsWith :: "string \<Rightarrow> string \<Rightarrow> bool" where
  "endsWith s p = (length p \<le> length s \<and> drop (length s - length p) s = p)"

text \<open>\<^verbatim>\<open>JSON.parse\<close> is the library's: \<open>parse s\<close> is \<open>None\<close> where it throws or returns a
  falsy value.\<close>

definition tryParseControlMessage ::
  "(string \<Rightarrow> ControlMessage option) \<Rightarrow> RawData \<Rightarrow> ControlMessage option" where
  "tryParseControlMessage parse data =
     (case data of
        Str d \<Rightarrow>
          (let s = trim d in
           if startsWith s ''{'' \<and> endsWith s ''}'' then
             (case parse s of
                Some obj \<Rightarrow> (if type_field obj \<noteq> None then Some obj else None)
              | None \<Rightarrow> None)
           else None)
      | Buf _ \<Rightarrow> None)"

section \<open>Resize, attach, terminate\<close>

text \<open>A connection object is passed by its id; the \<open>None\<close> branches below stand for a
  reference to no object, which the source cannot hold.\<close>

definition applyResize :: "int \<Rightarrow> string \<Rightarrow> jsnum \<Rightarrow> jsnum \<Rightarrow> Engine \<Rightarrow> Engine" where
  "applyResize t cid c r e =
     (case heap e cid of
        None \<Rightarrow> e
      | Some conn \<Rightarrow>
          (let e1 = modify cid (\<lambda>k. k\<lparr>cols := c, rows := r\<rparr>) e;
               e2 = (case shell conn of None \<Rightarrow> e1
                     | Some _ \<Rightarrow> call (shell_setWindow cid r c) e1)
           in bumpAndNotify t r_resize (Some [cid]) e2))"

definition banner :: string where
  "banner = [CHR 0x0D, CHR 0x0A] @ ''[attached]'' @ [CHR 0x0D, CHR 0x0A]"

text \<open>\<^verbatim>\<open>JSON.stringify({ type: "pong" })\<close>; \<open>quoted\<close> puts a text between double quotes.\<close>

definition quoted :: "string \<Rightarrow> string" where
  "quoted s = [CHR 0x22] @ s @ [CHR 0x22]"

definition pong :: string where
  "pong = ''{'' @ quoted ''type'' @ '':'' @ quoted ''pong'' @ ''}''"

definition attachWebSocket :: "int \<Rightarrow> WebSocket \<Rightarrow> string \<Rightarrow> bool \<Rightarrow> Engine \<Rightarrow> Engine" where
  "attachWebSocket t ws cid readOnly e =
     (case heap e cid of
        None \<Rightarrow> e
      | Some conn \<Rightarrow>
          if state conn \<noteq> Ready \<or> shell conn = None
          then safeCloseWs ws 1011 ''Connection not ready'' e
          else
            (let e1 = modify cid (\<lambda>k. touch t (k\<lparr>clients :=
                        (if ws \<in> set (clients k) then clients k else clients k @ [ws])\<rparr>)) e;
                 e2 = bumpAndNotify t r_ws_attached (Some [cid]) e1;
                 e3 = call (ws_send ws (Buf banner)) e2
             in e3\<lparr>attached := (attached e3)(ws \<mapsto> (cid, readOnly))\<rparr>))"

text \<open>\<^verbatim>\<open>conn.shell!.write(..)\<close>: the handler exists only after \<open>attachWebSocket\<close> saw a
  shell, and no code clears the field.\<close>

definition shellWrite :: "string \<Rightarrow> RawData \<Rightarrow> Engine \<Rightarrow> Engine" where
  "shellWrite cid d e =
     (case heap e cid of None \<Rightarrow> e
      | Some conn \<Rightarrow> (case shell conn of None \<Rightarrow> e | Some _ \<Rightarrow> call (shell_write cid d) e))"

text \<open>The \<^verbatim>\<open>"message"\<close> handler registered by \<open>attachWebSocket\<close>.\<close>

definition ws_message :: "Config \<Rightarrow> int \<Rightarrow> WebSocket \<Rightarrow> RawData \<Rightarrow> Engine \<Rightarrow> Engine" where
  "ws_message cfg t ws data e =
     (case attached e ws of
        None \<Rightarrow> e
      | Some (cid, readOnly) \<Rightarrow>
          (let e1 = modify cid (touch t) e in
           if readOnly then e1
           else
             (case tryParseControlMessage (JSON_parse cfg) data of
                Some ctrl \<Rightarrow>
                  if type_field ctrl = Some ''resize'' then
                    (case (cols_field ctrl, rows_field ctrl) of
                       (Some c, Some r) \<Rightarrow> applyResize t cid (Num c) (Num r) e1
                     | _ \<Rightarrow> e1)
                  else if type_field ctrl = Some ''stdin'' then
                    shellWrite cid (Str (data_field ctrl)) e1
                  else if type_field ctrl = Some ''ping'' then call (ws_send ws (Str pong)) e1
                  else if type_field ctrl = Some ''detach'' then safeCloseWs ws 1000 ''Detached'' e1
                  else shellWrite cid data e1
              | None \<Rightarrow> shellWrite cid data e1)))"

text \<open>The \<^verbatim>\<open>cleanup\<close> closure, registered for both \<^verbatim>\<open>"close"\<close> and \<^verbatim>\<open>"error"\<close>.\<close>

definition ws_cleanup :: "int \<Rightarrow> WebSocket \<Rightarrow> Engine \<Rightarrow> Engine" where
  "ws_cleanup t ws e =
     (case attached e ws of
        None \<Rightarrow> e
      | Some (cid, _) \<Rightarrow>
          bumpAndNotify t r_ws_detached (Some [cid])
            (modify cid (\<lambda>k. touch t (k\<lparr>clients := filter (\<lambda>w. w \<noteq> ws) (clients k)\<rparr>)) e))"

definition closeClients :: "string \<Rightarrow> nat \<Rightarrow> string \<Rightarrow> Engine \<Rightarrow> Engine" where
  "closeClients cid code why e =
     (case heap e cid of None \<Rightarrow> e
      | Some conn \<Rightarrow>
          modify cid (\<lambda>k. k\<lparr>clients := []\<rparr>)
            (foldl (\<lambda>e' w. safeCloseWs w code why e') e (clients conn)))"

definition terminateConnection :: "int \<Rightarrow> string \<Rightarrow> string \<Rightarrow> Reason \<Rightarrow> Engine \<Rightarrow> Engine" where
  "terminateConnection t cid why rsn e =
     (case heap e cid of
        None \<Rightarrow> e
      | Some conn \<Rightarrow>
          (let e1 = modify cid (\<lambda>k. k\<lparr>state := Closed\<rparr>) e;
               e2 = closeClients cid 1001 why e1;
               e3 = (case shell conn of None \<Rightarrow> e2 | Some _ \<Rightarrow> call (shell_close cid) e2);
               e4 = call (ssh_end cid) e3;
               e5 = e4\<lparr>connections := filter (\<lambda>k. k \<noteq> cid) (connections e4)\<rparr>
           in bumpAndNotify t rsn (Some [cid]) e5))"

section \<open>createConnection\<close>

record CreateParams =
  p_host :: string
  p_port :: "jsnum option"
  p_username :: string
  p_password :: string
  p_cols :: "jsnum option"
  p_rows :: "jsnum option"
  p_idleTimeoutMs :: "jsnum option"

text \<open>
  The part of \<^verbatim>\<open>createConnection\<close> before its first \<^verbatim>\<open>await\<close>. \<open>cid\<close> is the value
  of \<^verbatim>\<open>randomUUID()\<close>; \<open>Inl\<close> is the thrown \<^verbatim>\<open>Error\<close> with its message. At an id in use
  the model follows \<^verbatim>\<open>Map.set\<close>: the key keeps its place and the value is replaced.
\<close>

definition newConnection :: "Config \<Rightarrow> int \<Rightarrow> string \<Rightarrow> CreateParams \<Rightarrow> ManagedConnection" where
  "newConnection cfg t cid params =
     \<lparr> conn_id = cid, state = Connecting, createdAt = t, lastActivityAt = t,
       shell = None, clients = [],
       cols = (case p_cols params of None \<Rightarrow> Num 120 | Some c \<Rightarrow> c),
       rows = (case p_rows params of None \<Rightarrow> Num 30 | Some r \<Rightarrow> r),
       idleTimeoutMs = (case p_idleTimeoutMs params of Some (Num n) \<Rightarrow> n
                        | _ \<Rightarrow> DEFAULT_IDLE_TIMEOUT_MS cfg),
       meta = \<lparr> host = p_host params,
                port = (case p_port params of None \<Rightarrow> Num 22 | Some q \<Rightarrow> q),
                username = p_username params \<rparr> \<rparr>"

definition createConnection ::
  "Config \<Rightarrow> int \<Rightarrow> string \<Rightarrow> CreateParams \<Rightarrow> Engine \<Rightarrow> string + Engine" where
  "createConnection cfg t cid params e =
     (if int (length (connections e)) \<ge> MAX_CONNECTIONS cfg then Inl ''MAX_CONNECTIONS exceeded''
      else
        (let conn = newConnection cfg t cid params;
             e1 = e\<lparr>connections := (if cid \<in> set (connections e) then connections e
                                      else connections e @ [cid]),
                    heap := (heap e)(cid \<mapsto> conn)\<rparr>;
             e2 = bumpAndNotify t r_created (Some [cid]) e1;
             e3 = call (ssh_connect cid (p_host params)
                          (case p_port params of None \<Rightarrow> Num 22 | Some q \<Rightarrow> q)
                          (p_username params) (p_password params)) e2
         in Inr (e3\<lparr>pending := (pending e3)(cid \<mapsto> AwaitSsh)\<rparr>)))"

section \<open>HTTP responses\<close>

record Created =
  c_id :: string
  c_state :: ConnectionState
  c_createdAt :: int
  c_lastActivityAt :: int
  c_idleTimeoutMs :: int
  c_wsPath :: string
  c_meta :: Meta

text \<open>The JSON bodies the handler sends: \<open>b_error msg detail\<close> is
  \<^verbatim>\<open>{error: msg}\<close> or \<^verbatim>\<open>{error: msg, detail: d}\<close>.\<close>

datatype Body =
    b_error string "string option"
  | b_ok
  | b_resized jsnum jsnum
  | b_created Created
  | b_snapshot Snapshot

record Response =
  status :: nat
  body :: Body

definition sendJson :: "nat \<Rightarrow> Body \<Rightarrow> Response" where
  "sendJson st b = \<lparr>status = st, body = b\<rparr>"

text \<open>The \<^verbatim>\<open>catch\<close> of the request handler.\<close>

definition internalError :: "string \<Rightarrow> Response" where
  "internalError msg = sendJson 500 (b_error ''Internal Server Error'' (Some msg))"

definition notFound :: Response where
  "notFound = sendJson 404 (b_error ''Not Found'' None)"

definition withBase :: "Config \<Rightarrow> string \<Rightarrow> string" where
  "withBase cfg pathname = BASE_PATH cfg @ pathname"

section \<open>Events of the ssh2 client and of the shell stream\<close>

text \<open>\<^verbatim>\<open>"ready"\<close> resolves the first promise; the function goes on to \<^verbatim>\<open>ssh.shell\<close>.\<close>

definition ssh_on_ready :: "string \<Rightarrow> Engine \<Rightarrow> Engine" where
  "ssh_on_ready cid e =
     (case (pending e cid, heap e cid) of
        (Some AwaitSsh, Some conn) \<Rightarrow>
          (call (ssh_shell cid (cols conn) (rows conn)) e)\<lparr>pending := (pending e)(cid \<mapsto> AwaitShell)\<rparr>
      | _ \<Rightarrow> e)"

text \<open>\<^verbatim>\<open>"error"\<close> rejects the first promise: while it is pending the rejection leaves
  \<^verbatim>\<open>createConnection\<close> and reaches the \<^verbatim>\<open>catch\<close> of the request handler; later it does
  nothing.\<close>

definition ssh_on_error :: "string \<Rightarrow> string \<Rightarrow> Engine \<Rightarrow> Response option \<times> Engine" where
  "ssh_on_error cid msg e =
     (case pending e cid of
        Some AwaitSsh \<Rightarrow> (Some (internalError msg), e\<lparr>pending := (pending e)(cid \<mapsto> Settled)\<rparr>)
      | _ \<Rightarrow> (None, e))"

definition ssh_on_close :: "int \<Rightarrow> string \<Rightarrow> Engine \<Rightarrow> Engine" where
  "ssh_on_close t cid e =
     (case pending e cid of
        None \<Rightarrow> e
      | Some _ \<Rightarrow>
          bumpAndNotify t r_state (Some [cid])
            (closeClients cid 1011 ''SSH closed'' (modify cid (\<lambda>k. k\<lparr>state := Closed\<rparr>) e)))"

text \<open>The callback of \<^verbatim>\<open>ssh.shell\<close>: \<open>Inl\<close> is \<^verbatim>\<open>err\<close> with its message, \<open>Inr\<close> the
  stream. On success the request handler answers 201 from the connection object.\<close>

definition created :: "Config \<Rightarrow> ManagedConnection \<Rightarrow> Created" where
  "created cfg conn =
     \<lparr> c_id = conn_id conn, c_state = state conn, c_createdAt = createdAt conn,
       c_lastActivityAt = lastActivityAt conn, c_idleTimeoutMs = idleTimeoutMs conn,
       c_wsPath = withBase cfg (''/ws/'' @ conn_id conn), c_meta = meta conn \<rparr>"

definition shell_callback ::
  "Config \<Rightarrow> int \<Rightarrow> string \<Rightarrow> string + ClientChannel \<Rightarrow> Engine \<Rightarrow> Response option \<times> Engine" where
  "shell_callback cfg t cid result e =
     (case pending e cid of
        Some AwaitShell \<Rightarrow>
          (case result of
             Inl msg \<Rightarrow> (Some (internalError msg), e\<lparr>pending := (pending e)(cid \<mapsto> Settled)\<rparr>)
           | Inr stream \<Rightarrow>
               (let e1 = modify cid (\<lambda>k. touch t (k\<lparr>shell := Some stream, state := Ready\<rparr>)) e;
                    e2 = bumpAndNotify t r_state (Some [cid]) e1;
                    e3 = e2\<lparr>pending := (pending e2)(cid \<mapsto> Settled)\<rparr>
                in (case heap e3 cid of
                      None \<Rightarrow> (None, e3)
                    | Some conn \<Rightarrow> (Some (sendJson 201 (b_created (created cfg conn))), e3))))
      | _ \<Rightarrow> (None, e))"

text \<open>The three handlers of the stream exist once the callback has stored it.\<close>

definition stream_on_data :: "int \<Rightarrow> string \<Rightarrow> string \<Rightarrow> Engine \<Rightarrow> Engine" where
  "stream_on_data t cid chunk e =
     (case heap e cid of
        None \<Rightarrow> e
      | Some conn \<Rightarrow>
          if shell conn = None then e
          else foldl (\<lambda>e' w. if readyState e' w = OPEN then call (ws_send w (Buf chunk)) e' else e')
                 (modify cid (touch t) e) (clients conn))"

definition stream_on_close :: "int \<Rightarrow> string \<Rightarrow> Engine \<Rightarrow> Engine" where
  "stream_on_close t cid e =
     (case heap e cid of
        None \<Rightarrow> e
      | Some conn \<Rightarrow>
          if shell conn = None then e
          else bumpAndNotify t r_state (Some [cid])
                 (closeClients cid 1011 ''Shell closed'' (modify cid (\<lambda>k. k\<lparr>state := Closed\<rparr>) e)))"

definition stream_on_error :: "int \<Rightarrow> string \<Rightarrow> Engine \<Rightarrow> Engine" where
  "stream_on_error t cid e =
     (case heap e cid of
        None \<Rightarrow> e
      | Some conn \<Rightarrow>
          if shell conn = None then e
          else bumpAndNotify t r_state (Some [cid])
                 (closeClients cid 1011 ''Shell error'' (modify cid (\<lambda>k. k\<lparr>state := Error\<rparr>) e)))"

section \<open>The request handler: the four admin routes\<close>

text \<open>\<^verbatim>\<open>connections.get(id)\<close>.\<close>

definition lookup :: "Engine \<Rightarrow> string \<Rightarrow> ManagedConnection option" where
  "lookup e cid = (if cid \<in> set (connections e) then heap e cid else None)"

text \<open>
  The parsed body of \<^verbatim>\<open>POST /connections\<close>, read as the handler reads it: a text
  field is \<open>None\<close> when falsy and otherwise its \<^verbatim>\<open>String(..)\<close>; a numeric field is
  \<open>None\<close> when falsy and otherwise its \<^verbatim>\<open>Number(..)\<close>. A body that
  \<^verbatim>\<open>parseJsonBody\<close> rejects is \<open>Inl\<close> with the message.
\<close>

record CreateBody =
  b_host :: "string option"
  b_port :: "jsnum option"
  b_username :: "string option"
  b_password :: "string option"
  b_cols :: "jsnum option"
  b_rows :: "jsnum option"
  b_idleTimeoutMs :: "jsnum option"

definition post_connections ::
  "Config \<Rightarrow> int \<Rightarrow> string \<Rightarrow> string + CreateBody \<Rightarrow> Engine \<Rightarrow> Response option \<times> Engine" where
  "post_connections cfg t cid parsed e =
     (case parsed of
        Inl msg \<Rightarrow> (Some (internalError msg), e)
      | Inr b \<Rightarrow>
          (case (b_host b, b_username b, b_password b) of
             (Some h, Some u, Some pw) \<Rightarrow>
               (case createConnection cfg t cid
                       \<lparr> p_host = h, p_port = b_port b, p_username = u, p_password = pw,
                         p_cols = b_cols b, p_rows = b_rows b,
                         p_idleTimeoutMs = b_idleTimeoutMs b \<rparr> e of
                  Inl msg \<Rightarrow> (Some (internalError msg), e)
                | Inr e' \<Rightarrow> (None, e'))
           | _ \<Rightarrow> (Some (sendJson 400 (b_error ''host, username, password are required'' None)), e)))"

definition get_connections :: "int \<Rightarrow> Engine \<Rightarrow> Response" where
  "get_connections t e = sendJson 200 (b_snapshot (connectionsSnapshot t e))"

definition delete_connection :: "int \<Rightarrow> string \<Rightarrow> Engine \<Rightarrow> Response \<times> Engine" where
  "delete_connection t cid e =
     (case lookup e cid of
        None \<Rightarrow> (notFound, e)
      | Some _ \<Rightarrow> (sendJson 200 b_ok, terminateConnection t cid ''Deleted'' r_deleted e))"

text \<open>The body of the resize route is the pair \<^verbatim>\<open>(Number(body.cols), Number(body.rows))\<close>.\<close>

definition post_resize ::
  "int \<Rightarrow> string \<Rightarrow> string + jsnum \<times> jsnum \<Rightarrow> Engine \<Rightarrow> Response \<times> Engine" where
  "post_resize t cid parsed e =
     (case lookup e cid of
        None \<Rightarrow> (notFound, e)
      | Some conn \<Rightarrow>
          if shell conn = None then (notFound, e)
          else
            (case parsed of
               Inl msg \<Rightarrow> (internalError msg, e)
             | Inr (c, r) \<Rightarrow>
                 if c = NaN \<or> r = NaN
                 then (sendJson 400 (b_error ''cols and rows must be numbers'' None), e)
                 else (sendJson 200 (b_resized c r), applyResize t cid c r e)))"

section \<open>WebSocket upgrade\<close>

text \<open>The socket that \<^verbatim>\<open>handleUpgrade\<close> hands over is open.\<close>

definition upgrade :: "int \<Rightarrow> WebSocket \<Rightarrow> string \<Rightarrow> bool \<Rightarrow> Engine \<Rightarrow> Engine" where
  "upgrade t ws cid readOnly e =
     (case lookup e cid of
        None \<Rightarrow> e
      | Some _ \<Rightarrow> attachWebSocket t ws cid readOnly (e\<lparr>readyState := (readyState e)(ws := OPEN)\<rparr>))"

section \<open>Idle sweeper\<close>

fun digits :: "nat \<Rightarrow> string" where
  "digits n = (if n < 10 then [char_of (48 + n)] else digits (n div 10) @ [char_of (48 + n mod 10)])"

definition show_int :: "int \<Rightarrow> string" where
  "show_int i = (if i < 0 then ''-'' @ digits (nat (- i)) else digits (nat i))"

definition eligible :: "int \<Rightarrow> Engine \<Rightarrow> ManagedConnection \<Rightarrow> bool" where
  "eligible t e conn =
     (let activeClients = list_ex (\<lambda>ws. readyState e ws = OPEN) (clients conn);
          idleFor = t - lastActivityAt conn
      in \<not> activeClients \<and> idleFor > idleTimeoutMs conn)"

definition sweep1 :: "int \<Rightarrow> Engine \<Rightarrow> string \<Rightarrow> Engine" where
  "sweep1 t e cid =
     (case heap e cid of
        None \<Rightarrow> e
      | Some conn \<Rightarrow>
          if eligible t e conn
          then terminateConnection t cid
                 (''Idle timeout ('' @ show_int (idleTimeoutMs conn) @ ''ms)'') r_idle_timeout e
          else e)"

text \<open>The loop visits the keys present at the tick: the only key a visit deletes is the
  one being visited.\<close>

definition sweep :: "int \<Rightarrow> Engine \<Rightarrow> Engine" where
  "sweep t e = foldl (sweep1 t) e (connections e)"

section \<open>Events and runs\<close>

datatype Event =
    PostConnections int string "string + CreateBody"
  | GetConnections int
  | DeleteConnection int string
  | PostResize int string "string + jsnum \<times> jsnum"
  | SseOpen int nat
  | SseClosed nat
  | SshReady string
  | SshError string string
  | SshClose int string
  | ShellCallback int string "string + ClientChannel"
  | StreamData int string string
  | StreamClose int string
  | StreamError int string
  | Upgrade int WebSocket string bool
  | WsMessage int WebSocket RawData
  | WsClosed int WebSocket
  | WsReadyState WebSocket ReadyState
  | SweepTick int

fun step :: "Config \<Rightarrow> Engine \<Rightarrow> Event \<Rightarrow> Response option \<times> Engine" where
  "step cfg e (PostConnections t cid b) = post_connections cfg t cid b e"
| "step cfg e (GetConnections t) = (Some (get_connections t e), e)"
| "step cfg e (DeleteConnection t cid) = (let (r, e') = delete_connection t cid e in (Some r, e'))"
| "step cfg e (PostResize t cid b) = (let (r, e') = post_resize t cid b e in (Some r, e'))"
| "step cfg e (SseOpen t res) = (None, handleSse t res e)"
| "step cfg e (SseClosed res) = (None, sse_cleanup res e)"
| "step cfg e (SshReady cid) = (None, ssh_on_ready cid e)"
| "step cfg e (SshError cid msg) = ssh_on_error cid msg e"
| "step cfg e (SshClose t cid) = (None, ssh_on_close t cid e)"
| "step cfg e (ShellCallback t cid r) = shell_callback cfg t cid r e"
| "step cfg e (StreamData t cid chunk) = (None, stream_on_data t cid chunk e)"
| "step cfg e (StreamClose t cid) = (None, stream_on_close t cid e)"
| "step cfg e (StreamError t cid) = (None, stream_on_error t cid e)"
| "step cfg e (Upgrade t ws cid ro) = (None, upgrade t ws cid ro e)"
| "step cfg e (WsMessage t ws d) = (None, ws_message cfg t ws d e)"
| "step cfg e (WsClosed t ws) = (None, ws_cleanup t ws e)"
| "step cfg e (WsReadyState ws rs) = (None, e\<lparr>readyState := (readyState e)(ws := rs)\<rparr>)"
| "step cfg e (SweepTick t) = (None, sweep t e)"

text \<open>A run from a state: the state reached and the responses sent, in order.\<close>

fun run :: "Config \<Rightarrow> Engine \<Rightarrow> Event list \<Rightarrow> Response option list \<times> Engine" where
  "run cfg e [] = ([], e)"
| "run cfg e (ev # evs) =
     (let (r, e') = step cfg e ev; (rs, e'') = run cfg e' evs in (r # rs, e''))"

section \<open>Definitions used in the statements\<close>

text \<open>The writes of one broadcast: subscriber \<open>r\<close> receives the summary under the next
  event id.\<close>

fun sseCalls :: "nat \<Rightarrow> ConnectionsSseSummary \<Rightarrow> nat list \<Rightarrow> Call list" where
  "sseCalls n s [] = []"
| "sseCalls n s (r # rs) = sse_event r (Suc n) s # sseCalls (Suc n) s rs"

definition summary :: "int \<Rightarrow> Reason \<Rightarrow> string list option \<Rightarrow> Engine \<Rightarrow> ConnectionsSseSummary" where
  "summary t why changed e =
     \<lparr>version = connectionsVersion e + 1, ts = t, reason = why, changedIds = changed,
      counts = computeCounts e\<rparr>"

text \<open>A summary partitions the registry when its total is the sum of its four buckets;
  \<open>ok\<close> says so of every summary published so far.\<close>

definition partitioned :: "Counts \<Rightarrow> bool" where
  "partitioned c \<longleftrightarrow> total c = ready c + connecting c + error c + closed c"

definition ok :: "Engine \<Rightarrow> bool" where
  "ok e \<longleftrightarrow> list_all (\<lambda>s. partitioned (counts s)) (published e)"

text \<open>
  A small deployment to evaluate the handlers on: one slot, a parser that knows the
  ping and the detach frame, a connection \<open>''a''\<close> created at time 1, whose ssh client
  became ready and whose shell (stream 0) opened at time 3.
\<close>

definition ping_frame :: string where
  "ping_frame = ''{'' @ quoted ''type'' @ '':'' @ quoted ''ping'' @ ''}''"

definition detach_frame :: string where
  "detach_frame = ''{'' @ quoted ''type'' @ '':'' @ quoted ''detach'' @ ''}''"

definition parse0 :: "string \<Rightarrow> ControlMessage option" where
  "parse0 s =
     (if s = ping_frame
      then Some \<lparr>type_field = Some ''ping'', cols_field = None, rows_field = None, data_field = []\<rparr>
      else if s = detach_frame
      then Some \<lparr>type_field = Some ''detach'', cols_field = None, rows_field = None, data_field = []\<rparr>
      else None)"

definition cfg0 :: Config where
  "cfg0 = \<lparr>MAX_CONNECTIONS = 1, DEFAULT_IDLE_TIMEOUT_MS = 600000, BASE_PATH = ''/v1/ssh'',
           JSON_parse = parse0\<rparr>"

definition body0 :: CreateBody where
  "body0 = \<lparr>b_host = Some ''h'', b_port = None, b_username = Some ''u'', b_password = Some ''p'',
            b_cols = None, b_rows = None, b_idleTimeoutMs = None\<rparr>"

definition e_connecting :: Engine where
  "e_connecting = snd (post_connections cfg0 1 ''a'' (Inr body0) init)"

definition e_ready :: Engine where
  "e_ready = snd (shell_callback cfg0 3 ''a'' (Inr 0) (ssh_on_ready ''a'' e_connecting))"

definition conn0 :: ManagedConnection where
  "conn0 = \<lparr>conn_id = ''a'', state = Connecting, createdAt = 1, lastActivityAt = 1,
            shell = None, clients = [], cols = Num 120, rows = Num 30, idleTimeoutMs = 600000,
            meta = \<lparr>host = ''h'', port = Num 22, username = ''u''\<rparr>\<rparr>"

text \<open>Two peers of the connection \<open>''a''\<close>: socket 7 attached with \<^verbatim>\<open>readOnly=1\<close>,
  socket 8 without.\<close>

definition e_ro :: Engine where
  "e_ro = upgrade 4 7 ''a'' True e_ready"

definition e_rw :: Engine where
  "e_rw = upgrade 4 8 ''a'' False e_ready"

definition e_closed :: Engine where
  "e_closed = stream_on_close 4 ''a'' e_ready"

text \<open>The states a run from the initial state reaches, and the invariant of the heap used
  below: a connection object in state \<open>Connecting\<close> has no shell handle.\<close>

inductive reachable :: "Config \<Rightarrow> Engine \<Rightarrow> bool" for cfg :: Config where
  reachable_init: "reachable cfg init"
| reachable_step: "reachable cfg e \<Longrightarrow> reachable cfg (snd (step cfg e ev))"

definition connecting_no_shell :: "Engine \<Rightarrow> bool" where
  "connecting_no_shell e \<longleftrightarrow>
     (\<forall>cid c. heap e cid = Some c \<longrightarrow> state c = Connecting \<longrightarrow> shell c = None)"

text \<open>
  The two ways a session becomes terminal. \<open>released\<close>: the object is \<open>Closed\<close> with no
  peers, its key has left the registry, one summary was published, and the calls made
  are the closes of the peers with code 1001, the close of the shell if there is one, the
  end of the ssh client and the writes of the broadcast. \<open>marked\<close>: the object has the
  terminal state \<open>st\<close> and no peers and is still registered, one summary with reason
  \<^verbatim>\<open>state\<close> was published, and the calls made are the closes of the peers with code 1011
  and the writes of the broadcast, nothing else.
\<close>

definition released ::
  "Engine \<Rightarrow> Engine \<Rightarrow> string \<Rightarrow> ManagedConnection \<Rightarrow> string \<Rightarrow> Reason \<Rightarrow> bool" where
  "released e e' cid conn why rsn \<longleftrightarrow>
     heap e' cid = Some (conn\<lparr>state := Closed, clients := []\<rparr>)
     \<and> lookup e' cid = None
     \<and> (\<exists>s. published e' = published e @ [s] \<and> reason s = rsn \<and> changedIds s = Some [cid]
            \<and> calls e' = calls e @ map (\<lambda>w. ws_close w 1001 why) (clients conn)
                  @ (case shell conn of None \<Rightarrow> [] | Some _ \<Rightarrow> [shell_close cid])
                  @ [ssh_end cid] @ sseCalls (sseSeq e) s (sseClients e))"

definition marked ::
  "Engine \<Rightarrow> Engine \<Rightarrow> string \<Rightarrow> ManagedConnection \<Rightarrow> ConnectionState \<Rightarrow> string \<Rightarrow> bool" where
  "marked e e' cid conn st why \<longleftrightarrow>
     lookup e' cid = Some (conn\<lparr>state := st, clients := []\<rparr>)
     \<and> connections e' = connections e
     \<and> (\<exists>s. published e' = published e @ [s] \<and> reason s = r_state \<and> changedIds s = Some [cid]
            \<and> calls e' = calls e @ map (\<lambda>w. ws_close w 1011 why) (clients conn)
                  @ sseCalls (sseSeq e) s (sseClients e))"

text \<open>The test the sweeper makes on the object behind a key.\<close>

definition idle :: "int \<Rightarrow> Engine \<Rightarrow> string \<Rightarrow> bool" where
  "idle t e cid = (case heap e cid of None \<Rightarrow> False | Some conn \<Rightarrow> eligible t e conn)"

definition tag :: "ConnectionsSseSummary \<Rightarrow> Reason \<times> string list option" where
  "tag s = (reason s, changedIds s)"

text \<open>A second deployment with two slots: \<open>''a''\<close> as before and \<open>''b''\<close> created at
  time 500000.\<close>

definition cfg2 :: Config where
  "cfg2 = cfg0\<lparr>MAX_CONNECTIONS := 2\<rparr>"

definition e_two :: Engine where
  "e_two = snd (post_connections cfg2 500000 ''b'' (Inr body0) e_ready)"

text \<open>
  The only place the password of a create request goes is the argument of
  \<^verbatim>\<open>ssh.connect\<close>. \<open>redact\<close> blanks it there and \<open>hide\<close> does so in the whole call log;
  \<open>set_password\<close> replaces the password a create request supplies.
\<close>

fun redact :: "Call \<Rightarrow> Call" where
  "redact (ssh_connect cid h p u pw) = ssh_connect cid h p u []"
| "redact c = c"

definition hide :: "Engine \<Rightarrow> Engine" where
  "hide e = e\<lparr>calls := map redact (calls e)\<rparr>"

fun set_password :: "string \<Rightarrow> Event \<Rightarrow> Event" where
  "set_password pw (PostConnections t cid (Inr b)) =
     PostConnections t cid (Inr (b\<lparr>b_password := map_option (\<lambda>_. pw) (b_password b)\<rparr>))"
| "set_password pw ev = ev"

section \<open>Frame lemmas: what each helper leaves alone\<close>

lemma call_frame [simp]:
  "connections (call c e) = connections e"
  "heap (call c e) = heap e"
  "connectionsVersion (call c e) = connectionsVersion e"
  "sseClients (call c e) = sseClients e"
  "sseSeq (call c e) = sseSeq e"
  "readyState (call c e) = readyState e"
  "attached (call c e) = attached e"
  "pending (call c e) = pending e"
  "published (call c e) = published e"
  "calls (call c e) = calls e @ [c]"
  by (simp_all add: call_def)

lemma modify_frame [simp]:
  "connections (modify cid f e) = connections e"
  "connectionsVersion (modify cid f e) = connectionsVersion e"
  "sseClients (modify cid f e) = sseClients e"
  "sseSeq (modify cid f e) = sseSeq e"
  "readyState (modify cid f e) = readyState e"
  "attached (modify cid f e) = attached e"
  "pending (modify cid f e) = pending e"
  "published (modify cid f e) = published e"
  "calls (modify cid f e) = calls e"
  by (simp_all add: modify_def split: option.splits)

lemma heap_modify [simp]:
  "heap (modify cid f e) k = (if k = cid then map_option f (heap e cid) else heap e k)"
  by (simp add: modify_def split: option.splits)

lemma computeCounts_cong:
  "connections e1 = connections e2 \<Longrightarrow> heap e1 = heap e2 \<Longrightarrow> computeCounts e1 = computeCounts e2"
  by (simp add: computeCounts_def connections_values_def)

lemma computeCounts_update [simp]:
  "computeCounts (e\<lparr>connectionsVersion := v\<rparr>) = computeCounts e"
  "computeCounts (e\<lparr>published := p\<rparr>) = computeCounts e"
  "computeCounts (e\<lparr>calls := c\<rparr>) = computeCounts e"
  "computeCounts (e\<lparr>sseSeq := q\<rparr>) = computeCounts e"
  "computeCounts (e\<lparr>sseClients := sc\<rparr>) = computeCounts e"
  "computeCounts (e\<lparr>readyState := rs\<rparr>) = computeCounts e"
  "computeCounts (e\<lparr>attached := a\<rparr>) = computeCounts e"
  "computeCounts (e\<lparr>pending := pd\<rparr>) = computeCounts e"
  by (simp_all add: computeCounts_def connections_values_def)

lemma sse_fold_frame:
  "connections (foldl (\<lambda>e' res. sseSend res s e') e rs) = connections e \<and>
   heap (foldl (\<lambda>e' res. sseSend res s e') e rs) = heap e \<and>
   connectionsVersion (foldl (\<lambda>e' res. sseSend res s e') e rs) = connectionsVersion e \<and>
   sseClients (foldl (\<lambda>e' res. sseSend res s e') e rs) = sseClients e \<and>
   readyState (foldl (\<lambda>e' res. sseSend res s e') e rs) = readyState e \<and>
   attached (foldl (\<lambda>e' res. sseSend res s e') e rs) = attached e \<and>
   pending (foldl (\<lambda>e' res. sseSend res s e') e rs) = pending e \<and>
   published (foldl (\<lambda>e' res. sseSend res s e') e rs) = published e \<and>
   sseSeq (foldl (\<lambda>e' res. sseSend res s e') e rs) = sseSeq e + length rs \<and>
   calls (foldl (\<lambda>e' res. sseSend res s e') e rs) = calls e @ sseCalls (sseSeq e) s rs"
  by (induction rs arbitrary: e) (simp_all add: sseSend_def Let_def)

lemma bump_frame [simp]:
  "connections (bumpAndNotify t why ch e) = connections e"
  "heap (bumpAndNotify t why ch e) = heap e"
  "connectionsVersion (bumpAndNotify t why ch e) = connectionsVersion e + 1"
  "sseClients (bumpAndNotify t why ch e) = sseClients e"
  "readyState (bumpAndNotify t why ch e) = readyState e"
  "attached (bumpAndNotify t why ch e) = attached e"
  "pending (bumpAndNotify t why ch e) = pending e"
  "sseSeq (bumpAndNotify t why ch e) = sseSeq e + length (sseClients e)"
  by (simp_all add: bumpAndNotify_def Let_def sse_fold_frame)

lemma published_bump [simp]:
  "published (bumpAndNotify t why ch e) = published e @ [summary t why ch e]"
  by (simp add: bumpAndNotify_def Let_def sse_fold_frame summary_def)

lemma calls_bump [simp]:
  "calls (bumpAndNotify t why ch e) = calls e @ sseCalls (sseSeq e) (summary t why ch e) (sseClients e)"
  by (simp add: bumpAndNotify_def Let_def sse_fold_frame summary_def)

lemma close_fold_frame:
  "connections (foldl (\<lambda>e' w. safeCloseWs w code why e') e ws) = connections e \<and>
   heap (foldl (\<lambda>e' w. safeCloseWs w code why e') e ws) = heap e \<and>
   connectionsVersion (foldl (\<lambda>e' w. safeCloseWs w code why e') e ws) = connectionsVersion e \<and>
   sseClients (foldl (\<lambda>e' w. safeCloseWs w code why e') e ws) = sseClients e \<and>
   readyState (foldl (\<lambda>e' w. safeCloseWs w code why e') e ws) = readyState e \<and>
   attached (foldl (\<lambda>e' w. safeCloseWs w code why e') e ws) = attached e \<and>
   pending (foldl (\<lambda>e' w. safeCloseWs w code why e') e ws) = pending e \<and>
   published (foldl (\<lambda>e' w. safeCloseWs w code why e') e ws) = published e \<and>
   sseSeq (foldl (\<lambda>e' w. safeCloseWs w code why e') e ws) = sseSeq e \<and>
   calls (foldl (\<lambda>e' w. safeCloseWs w code why e') e ws) = calls e @ map (\<lambda>w. ws_close w code why) ws"
  by (induction ws arbitrary: e) (simp_all add: safeCloseWs_def)

lemma closeClients_frame [simp]:
  "connections (closeClients cid code why e) = connections e"
  "connectionsVersion (closeClients cid code why e) = connectionsVersion e"
  "sseClients (closeClients cid code why e) = sseClients e"
  "readyState (closeClients cid code why e) = readyState e"
  "attached (closeClients cid code why e) = attached e"
  "pending (closeClients cid code why e) = pending e"
  "published (closeClients cid code why e) = published e"
  "sseSeq (closeClients cid code why e) = sseSeq e"
  by (simp_all add: closeClients_def close_fold_frame split: option.splits)

lemma heap_closeClients [simp]:
  "heap (closeClients cid code why e) k =
     (if k = cid then map_option (\<lambda>c. c\<lparr>clients := []\<rparr>) (heap e cid) else heap e k)"
  by (simp add: closeClients_def close_fold_frame split: option.splits)

lemma calls_closeClients [simp]:
  "calls (closeClients cid code why e) =
     calls e @ (case heap e cid of None \<Rightarrow> [] | Some c \<Rightarrow> map (\<lambda>w. ws_close w code why) (clients c))"
  by (simp add: closeClients_def close_fold_frame split: option.splits)


section \<open>Counts: buckets, and what every step publishes\<close>

lemma count1_fields:
  "total (count1 acc c) = total acc + 1"
  "ready (count1 acc c) = ready acc + (if state c = Ready then 1 else 0)"
  "connecting (count1 acc c) = connecting acc + (if state c = Connecting then 1 else 0)"
  "error (count1 acc c) = error acc + (if state c = Error then 1 else 0)"
  "closed (count1 acc c) = closed acc + (if state c = Closed then 1 else 0)"
  by (cases "state c"; simp add: count1_def Let_def)+

lemma count1_fold:
  "foldl count1 acc cs =
     \<lparr> total = total acc + length cs,
       ready = ready acc + length (filter (\<lambda>c. state c = Ready) cs),
       connecting = connecting acc + length (filter (\<lambda>c. state c = Connecting) cs),
       error = error acc + length (filter (\<lambda>c. state c = Error) cs),
       closed = closed acc + length (filter (\<lambda>c. state c = Closed) cs) \<rparr>"
proof (induction cs arbitrary: acc)
  case Nil
  show ?case by simp
next
  case (Cons c cs)
  show ?case
    by (simp add: Cons.IH count1_fields)
qed

lemma computeCounts_buckets:
  "computeCounts e =
     \<lparr> total = length (connections_values e),
       ready = length (filter (\<lambda>c. state c = Ready) (connections_values e)),
       connecting = length (filter (\<lambda>c. state c = Connecting) (connections_values e)),
       error = length (filter (\<lambda>c. state c = Error) (connections_values e)),
       closed = length (filter (\<lambda>c. state c = Closed) (connections_values e)) \<rparr>"
  by (simp add: computeCounts_def count1_fold)

lemma bucket_sum:
  "length cs = length (filter (\<lambda>c. state c = Ready) cs)
             + length (filter (\<lambda>c. state c = Connecting) cs)
             + length (filter (\<lambda>c. state c = Error) cs)
             + length (filter (\<lambda>c. state c = Closed) cs)"
proof (induction cs)
  case Nil
  show ?case by simp
next
  case (Cons c cs)
  then show ?case by (cases "state c") simp_all
qed

lemma partitioned_computeCounts [simp]: "partitioned (computeCounts e)"
  unfolding partitioned_def computeCounts_buckets
  using bucket_sum [of "connections_values e"] by simp

lemma counts_summary [simp]: "counts (summary t why ch e) = computeCounts e"
  by (simp add: summary_def)

lemma ok_bump [simp]: "ok (bumpAndNotify t why ch e) = ok e"
  by (simp add: ok_def)

lemma ok_frame [simp]:
  "ok (call c e) = ok e"
  "ok (modify cid f e) = ok e"
  "ok (closeClients cid code why e) = ok e"
  "ok (safeCloseWs w code why e) = ok e"
  "ok (sseSend res s e) = ok e"
  "ok (e\<lparr>connections := cs\<rparr>) = ok e"
  "ok (e\<lparr>heap := h\<rparr>) = ok e"
  "ok (e\<lparr>sseClients := sc\<rparr>) = ok e"
  "ok (e\<lparr>readyState := rs\<rparr>) = ok e"
  "ok (e\<lparr>attached := a\<rparr>) = ok e"
  "ok (e\<lparr>pending := pd\<rparr>) = ok e"
  "ok (e\<lparr>sseSeq := q\<rparr>) = ok e"
  "ok (e\<lparr>calls := cl\<rparr>) = ok e"
  "ok (e\<lparr>connectionsVersion := v\<rparr>) = ok e"
  by (simp_all add: ok_def safeCloseWs_def sseSend_def Let_def)

lemma ok_terminate: "ok e \<Longrightarrow> ok (terminateConnection t cid why rsn e)"
  by (simp add: terminateConnection_def Let_def split: option.splits)

lemma ok_sweep1: "ok e \<Longrightarrow> ok (sweep1 t e cid)"
  by (simp add: sweep1_def ok_terminate split: option.splits)

lemma ok_foldl_sweep1: "ok e \<Longrightarrow> ok (foldl (sweep1 t) e cids)"
  by (induction cids arbitrary: e) (simp_all add: ok_sweep1)

lemma ok_applyResize: "ok e \<Longrightarrow> ok (applyResize t cid c r e)"
  by (simp add: applyResize_def Let_def split: option.splits)

lemma ok_shellWrite: "ok (shellWrite cid d e) = ok e"
  by (simp add: shellWrite_def split: option.splits)

lemma ok_step: "ok e \<Longrightarrow> ok (snd (step cfg e ev))"
proof (cases ev)
  case (PostConnections t cid b)
  assume "ok e"
  then show ?thesis unfolding PostConnections
    by (simp add: post_connections_def createConnection_def Let_def
          split: sum.splits option.splits)
next
  case (DeleteConnection t cid)
  assume "ok e"
  then show ?thesis unfolding DeleteConnection
    by (simp add: delete_connection_def ok_terminate split: option.splits)
next
  case (PostResize t cid b)
  assume "ok e"
  then show ?thesis unfolding PostResize
    by (simp add: post_resize_def ok_applyResize split: option.splits sum.splits prod.splits)
next
  case (SseOpen t res)
  assume "ok e"
  then show ?thesis unfolding SseOpen
    by (simp add: handleSse_def Let_def)
next
  case (SseClosed res)
  assume "ok e"
  then show ?thesis unfolding SseClosed by (simp add: sse_cleanup_def)
next
  case (SshReady cid)
  assume "ok e"
  then show ?thesis unfolding SshReady
    by (simp add: ssh_on_ready_def split: option.splits Phase.splits)
next
  case (SshError cid msg)
  assume "ok e"
  then show ?thesis unfolding SshError
    by (simp add: ssh_on_error_def split: option.splits Phase.splits)
next
  case (SshClose t cid)
  assume "ok e"
  then show ?thesis unfolding SshClose
    by (simp add: ssh_on_close_def split: option.splits)
next
  case (ShellCallback t cid r)
  assume "ok e"
  then show ?thesis unfolding ShellCallback
    by (simp add: shell_callback_def Let_def
          split: option.splits Phase.splits sum.splits)
next
  case (StreamData t cid chunk)
  assume "ok e"
  have "ok (foldl (\<lambda>e' w. if readyState e' w = OPEN then call (ws_send w (Buf chunk)) e' else e') e0 ws)
        = ok e0" for e0 ws
    by (induction ws arbitrary: e0) simp_all
  with \<open>ok e\<close> show ?thesis unfolding StreamData
    by (simp add: stream_on_data_def split: option.splits)
next
  case (StreamClose t cid)
  assume "ok e"
  then show ?thesis unfolding StreamClose
    by (simp add: stream_on_close_def split: option.splits)
next
  case (StreamError t cid)
  assume "ok e"
  then show ?thesis unfolding StreamError
    by (simp add: stream_on_error_def split: option.splits)
next
  case (Upgrade t ws cid ro)
  assume "ok e"
  then show ?thesis unfolding Upgrade
    by (simp add: upgrade_def attachWebSocket_def safeCloseWs_def Let_def split: option.splits)
next
  case (WsMessage t ws d)
  assume "ok e"
  then show ?thesis unfolding WsMessage
    by (simp add: ws_message_def safeCloseWs_def Let_def ok_applyResize ok_shellWrite
          split: option.splits prod.splits)
next
  case (WsClosed t ws)
  assume "ok e"
  then show ?thesis unfolding WsClosed
    by (simp add: ws_cleanup_def split: option.splits prod.splits)
next
  case (SweepTick t)
  assume "ok e"
  then show ?thesis unfolding SweepTick by (simp add: sweep_def ok_foldl_sweep1)
qed simp_all

lemma ok_run: "ok e \<Longrightarrow> ok (snd (run cfg e evs))"
proof (induction evs arbitrary: e)
  case Nil
  then show ?case by simp
next
  case (Cons ev evs)
  from Cons.prems have "ok (snd (step cfg e ev))" by (rule ok_step)
  then have "ok (snd (run cfg (snd (step cfg e ev)) evs))" by (rule Cons.IH)
  then show ?case by (simp add: split_beta)
qed

section \<open>The deployments, evaluated\<close>

lemma init_fields [simp]:
  "connections init = []" "heap init = (\<lambda>_. None)" "connectionsVersion init = 0"
  "sseClients init = []" "sseSeq init = 0" "attached init = (\<lambda>_. None)"
  "pending init = (\<lambda>_. None)" "calls init = []" "published init = []"
  "readyState init = (\<lambda>_. CLOSED)"
  by (simp_all add: init_def)

lemma computeCounts_init [simp]:
  "computeCounts init = \<lparr>total = 0, ready = 0, connecting = 0, error = 0, closed = 0\<rparr>"
  by (simp add: computeCounts_def connections_values_def)

lemma summary_fields [simp]:
  "version (summary t why ch e) = connectionsVersion e + 1"
  "ts (summary t why ch e) = t"
  "reason (summary t why ch e) = why"
  "changedIds (summary t why ch e) = ch"
  by (simp_all add: summary_def)

lemma e_connecting_fields:
  "connections e_connecting = [''a'']"
  "heap e_connecting = (\<lambda>_. None)(''a'' \<mapsto> conn0)"
  "connectionsVersion e_connecting = 1"
  "sseClients e_connecting = []"
  "pending e_connecting = (\<lambda>_. None)(''a'' \<mapsto> AwaitSsh)"
  "attached e_connecting = (\<lambda>_. None)"
  "readyState e_connecting = (\<lambda>_. CLOSED)"
  "calls e_connecting = [ssh_connect ''a'' ''h'' (Num 22) ''u'' ''p'']"
  "map reason (published e_connecting) = [r_created]"
  by (simp_all add: e_connecting_def post_connections_def createConnection_def cfg0_def body0_def
        newConnection_def conn0_def Let_def)

lemma e_ready_fields:
  "connections e_ready = [''a'']"
  "heap e_ready = (\<lambda>_. None)(''a'' \<mapsto> conn0\<lparr>shell := Some 0, state := Ready, lastActivityAt := 3\<rparr>)"
  "connectionsVersion e_ready = 2"
  "sseClients e_ready = []"
  "pending e_ready = (\<lambda>_. None)(''a'' \<mapsto> Settled)"
  "attached e_ready = (\<lambda>_. None)"
  "readyState e_ready = (\<lambda>_. CLOSED)"
  "calls e_ready = [ssh_connect ''a'' ''h'' (Num 22) ''u'' ''p'', ssh_shell ''a'' (Num 120) (Num 30)]"
  "map reason (published e_ready) = [r_created, r_state]"
  by (simp_all add: e_ready_def shell_callback_def ssh_on_ready_def e_connecting_fields Let_def
       touch_def conn0_def fun_eq_iff)

section \<open>Counts of every published summary (C10)\<close>

lemma closed_bucket: "(state c \<noteq> Ready \<and> state c \<noteq> Connecting \<and> state c \<noteq> Error) = (state c = Closed)"
  by (cases "state c") simp_all

text \<open>
  C10. \<open>computeCounts\<close> counts every registered session in exactly one bucket, a state that
  is none of ready, connecting and error falling into closed; in every summary published
  along a run from the initial state, total is the sum of the four buckets.
\<close>

theorem summary_counts_partition:
  "computeCounts e =
     \<lparr> total = length (connections_values e),
       ready = length (filter (\<lambda>c. state c = Ready) (connections_values e)),
       connecting = length (filter (\<lambda>c. state c = Connecting) (connections_values e)),
       error = length (filter (\<lambda>c. state c = Error) (connections_values e)),
       closed = length (filter (\<lambda>c. state c \<noteq> Ready \<and> state c \<noteq> Connecting \<and> state c \<noteq> Error)
                          (connections_values e)) \<rparr>
   \<and> total (computeCounts e) = ready (computeCounts e) + connecting (computeCounts e)
        + error (computeCounts e) + closed (computeCounts e)
   \<and> counts (last (published (bumpAndNotify t why ch e))) = computeCounts e
   \<and> list_all (\<lambda>s. total (counts s) = ready (counts s) + connecting (counts s)
                      + error (counts s) + closed (counts s))
        (published (snd (run cfg init evs)))"
proof -
  have "ok init" by (simp add: ok_def)
  then have "ok (snd (run cfg init evs))" by (rule ok_run)
  then have runs: "list_all (\<lambda>s. total (counts s) = ready (counts s) + connecting (counts s)
                      + error (counts s) + closed (counts s))
        (published (snd (run cfg init evs)))"
    by (simp add: ok_def partitioned_def)
  have sum: "total (computeCounts e) = ready (computeCounts e) + connecting (computeCounts e)
        + error (computeCounts e) + closed (computeCounts e)"
    using partitioned_computeCounts [of e] by (simp only: partitioned_def)
  have buckets: "computeCounts e =
     \<lparr> total = length (connections_values e),
       ready = length (filter (\<lambda>c. state c = Ready) (connections_values e)),
       connecting = length (filter (\<lambda>c. state c = Connecting) (connections_values e)),
       error = length (filter (\<lambda>c. state c = Error) (connections_values e)),
       closed = length (filter (\<lambda>c. state c \<noteq> Ready \<and> state c \<noteq> Connecting \<and> state c \<noteq> Error)
                          (connections_values e)) \<rparr>"
    by (simp only: closed_bucket computeCounts_buckets [symmetric])
  have "counts (last (published (bumpAndNotify t why ch e))) = computeCounts e"
    by simp
  with buckets sum runs show ?thesis by blast
qed

theorem summary_counts_partition_witness:
  "counts (last (published (bumpAndNotify 1 r_created (Some [''a'']) e_connecting)))
     = \<lparr>total = 1, ready = 0, connecting = 1, error = 0, closed = 0\<rparr>
   \<and> list_all (\<lambda>s. total (counts s) = ready (counts s) + connecting (counts s)
                      + error (counts s) + closed (counts s))
        (published (snd (run cfg0 init [PostConnections 1 ''a'' (Inr body0), SshReady ''a''])))
   \<and> published (snd (run cfg0 init [PostConnections 1 ''a'' (Inr body0), SshReady ''a''])) \<noteq> []"
proof -
  have v: "connections_values e_connecting = [conn0]"
    by (simp add: connections_values_def e_connecting_fields List.map_filter_def)
  have p: "published (snd (run cfg0 init [PostConnections 1 ''a'' (Inr body0), SshReady ''a''])) \<noteq> []"
  proof -
    have "published e_connecting \<noteq> []"
      using e_connecting_fields(9) by auto
    then show ?thesis
      by (simp add: e_connecting_def [symmetric] ssh_on_ready_def e_connecting_fields split_beta)
  qed
  show ?thesis
    using summary_counts_partition [of e_connecting 1 r_created "Some [''a'']" cfg0
            "[PostConnections 1 ''a'' (Inr body0), SshReady ''a'']"] p
    by (simp add: v conn0_def)
qed

section \<open>Read-only peers (C3)\<close>

lemma lookup_e_ready:
  "lookup e_ready ''a'' = Some (conn0\<lparr>shell := Some 0, state := Ready, lastActivityAt := 3\<rparr>)"
  by (simp add: lookup_def e_ready_fields)

lemma e_ro_fields:
  "attached e_ro 7 = Some (''a'', True)"
  "calls e_ro = calls e_ready @ [ws_send 7 (Buf banner)]"
  "heap e_ro ''a'' = Some (conn0\<lparr>shell := Some 0, state := Ready, lastActivityAt := 4, clients := [7]\<rparr>)"
  by (simp_all add: e_ro_def upgrade_def lookup_e_ready attachWebSocket_def e_ready_fields Let_def
        conn0_def touch_def)

lemma e_rw_fields:
  "attached e_rw 8 = Some (''a'', False)"
  "calls e_rw = calls e_ready @ [ws_send 8 (Buf banner)]"
  "heap e_rw ''a'' = Some (conn0\<lparr>shell := Some 0, state := Ready, lastActivityAt := 4, clients := [8]\<rparr>)"
  by (simp_all add: e_rw_def upgrade_def lookup_e_ready attachWebSocket_def e_ready_fields Let_def
        conn0_def touch_def)

lemma trim_frames [simp]: "trim ping_frame = ping_frame" "trim detach_frame = detach_frame"
  by (simp_all add: trim_def ping_frame_def detach_frame_def quoted_def is_space_def)

lemma parse_frames:
  "tryParseControlMessage parse0 (Str ping_frame)
     = Some \<lparr>type_field = Some ''ping'', cols_field = None, rows_field = None, data_field = []\<rparr>"
  "tryParseControlMessage parse0 (Str detach_frame)
     = Some \<lparr>type_field = Some ''detach'', cols_field = None, rows_field = None, data_field = []\<rparr>"
  by (simp_all add: tryParseControlMessage_def parse0_def startsWith_def endsWith_def)
     (simp_all add: ping_frame_def detach_frame_def quoted_def)

text \<open>
  C3 as stated fails: the message handler returns at \<^verbatim>\<open>if (readOnly) return;\<close> before it
  parses the frame. The read-only socket 7 gets no pong for a ping frame and is not closed
  by a detach frame; socket 8, attached without the flag, gets both.
\<close>

theorem readonly_ping_detach_counterexample:
  "ws_send 7 (Str pong) \<notin> set (calls (ws_message cfg0 5 7 (Str ping_frame) e_ro))
   \<and> ws_close 7 1000 ''Detached'' \<notin> set (calls (ws_message cfg0 5 7 (Str detach_frame) e_ro))
   \<and> ws_send 8 (Str pong) \<in> set (calls (ws_message cfg0 5 8 (Str ping_frame) e_rw))
   \<and> ws_close 8 1000 ''Detached'' \<in> set (calls (ws_message cfg0 5 8 (Str detach_frame) e_rw))"
  by (simp add: ws_message_def e_ro_fields e_rw_fields e_ready_fields cfg0_def parse_frames
        safeCloseWs_def)

text \<open>
  C3, amended. For a peer attached in read-only mode every inbound frame, the ping and
  the detach control frames included, only updates \<open>lastActivityAt\<close> of its connection: no
  call is made on any handle (no pong, no close, no shell write, no window change),
  nothing is published and the registry keeps its keys.
\<close>

theorem readonly_drops_every_frame:
  "attached e ws = Some (cid, True) \<Longrightarrow>
     ws_message cfg t ws data e = modify cid (touch t) e
     \<and> calls (ws_message cfg t ws data e) = calls e
     \<and> published (ws_message cfg t ws data e) = published e
     \<and> connections (ws_message cfg t ws data e) = connections e"
  by (simp add: ws_message_def)

theorem readonly_drops_every_frame_witness:
  "attached e_ro 7 = Some (''a'', True)
   \<and> calls (ws_message cfg0 5 7 (Str ping_frame) e_ro) = calls e_ro
   \<and> calls (ws_message cfg0 5 7 (Str detach_frame) e_ro) = calls e_ro"
  using readonly_drops_every_frame [of e_ro 7 "''a''" cfg0 5 "Str ping_frame"]
        readonly_drops_every_frame [of e_ro 7 "''a''" cfg0 5 "Str detach_frame"]
  by (simp add: e_ro_fields)

section \<open>Capacity (C5)\<close>

text \<open>
  C5 as stated fails on the status: with the registry at \<open>MAX_CONNECTIONS\<close> the thrown error
  reaches the \<^verbatim>\<open>catch\<close> of the request handler, which answers 500, not 503.
\<close>

theorem capacity_status_counterexample:
  "fst (post_connections cfg0 5 ''b'' (Inr body0) e_ready)
     = Some \<lparr>status = 500, body = b_error ''Internal Server Error'' (Some ''MAX_CONNECTIONS exceeded'')\<rparr>
   \<and> int (length (connections e_ready)) = MAX_CONNECTIONS cfg0
   \<and> map_option status (fst (post_connections cfg0 5 ''b'' (Inr body0) e_ready)) \<noteq> Some 503"
  by (simp add: post_connections_def createConnection_def body0_def e_ready_fields cfg0_def
        internalError_def sendJson_def)

text \<open>
  C5, amended. A create request with host, username and password that arrives when the
  registry holds \<open>MAX_CONNECTIONS\<close> sessions or more fails in \<open>createConnection\<close> with the
  error \<^verbatim>\<open>MAX_CONNECTIONS exceeded\<close>; the HTTP layer answers status 500 with that text in
  the detail field, and the engine state is unchanged.
\<close>

theorem capacity_exceeded:
  "int (length (connections e)) \<ge> MAX_CONNECTIONS cfg \<Longrightarrow>
   b_host b = Some h \<Longrightarrow> b_username b = Some u \<Longrightarrow> b_password b = Some pw \<Longrightarrow>
     createConnection cfg t cid params e = Inl ''MAX_CONNECTIONS exceeded''
     \<and> post_connections cfg t cid (Inr b) e
         = (Some \<lparr>status = 500,
                   body = b_error ''Internal Server Error'' (Some ''MAX_CONNECTIONS exceeded'')\<rparr>, e)"
  by (simp add: post_connections_def createConnection_def internalError_def sendJson_def)

theorem capacity_exceeded_witness:
  "int (length (connections e_ready)) \<ge> MAX_CONNECTIONS cfg0
   \<and> b_host body0 = Some ''h'' \<and> b_username body0 = Some ''u'' \<and> b_password body0 = Some ''p''
   \<and> post_connections cfg0 5 ''b'' (Inr body0) e_ready
         = (Some \<lparr>status = 500,
                   body = b_error ''Internal Server Error'' (Some ''MAX_CONNECTIONS exceeded'')\<rparr>, e_ready)"
proof -
  have h: "int (length (connections e_ready)) \<ge> MAX_CONNECTIONS cfg0"
    by (simp add: e_ready_fields cfg0_def)
  have b: "b_host body0 = Some ''h''" "b_username body0 = Some ''u''" "b_password body0 = Some ''p''"
    by (simp_all add: body0_def)
  from capacity_exceeded [OF h b] h b show ?thesis by simp
qed

section \<open>Failed connection attempts (C2)\<close>

text \<open>
  C2 on the code. An error of the ssh client while connecting, and an error of the shell
  request, each reject the promise of \<open>createConnection\<close>: the request is answered 500,
  and the session is still registered in state \<open>Connecting\<close>, not \<open>Error\<close>.
\<close>

theorem connect_failure_stays_connecting:
  "fst (ssh_on_error ''a'' ''All configured authentication methods failed'' e_connecting)
     = Some \<lparr>status = 500, body = b_error ''Internal Server Error''
                 (Some ''All configured authentication methods failed'')\<rparr>
   \<and> map_option state
        (lookup (snd (ssh_on_error ''a'' ''All configured authentication methods failed'' e_connecting)) ''a'')
       = Some Connecting
   \<and> fst (shell_callback cfg0 3 ''a'' (Inl ''Unable to request a pseudo-terminal'')
            (ssh_on_ready ''a'' e_connecting))
     = Some \<lparr>status = 500, body = b_error ''Internal Server Error''
                 (Some ''Unable to request a pseudo-terminal'')\<rparr>
   \<and> map_option state
        (lookup (snd (shell_callback cfg0 3 ''a'' (Inl ''Unable to request a pseudo-terminal'')
                        (ssh_on_ready ''a'' e_connecting))) ''a'')
       = Some Connecting"
  by (simp add: ssh_on_error_def shell_callback_def ssh_on_ready_def e_connecting_fields lookup_def
        internalError_def sendJson_def conn0_def)

section \<open>Resize: dimensions and activity (C6, C7)\<close>

lemma computeCounts_call [simp]: "computeCounts (call c e) = computeCounts e"
  by (simp add: call_def)

lemma summary_call [simp]: "summary t why ch (call c e) = summary t why ch e"
  by (simp add: summary_def)

lemma applyResize_frame [simp]:
  "connections (applyResize t cid c r e) = connections e"
  "readyState (applyResize t cid c r e) = readyState e"
  "attached (applyResize t cid c r e) = attached e"
  "pending (applyResize t cid c r e) = pending e"
  "sseClients (applyResize t cid c r e) = sseClients e"
  by (simp_all add: applyResize_def Let_def split: option.splits)

lemma heap_applyResize [simp]:
  "heap (applyResize t cid c r e) k =
     (if k = cid then map_option (\<lambda>k. k\<lparr>cols := c, rows := r\<rparr>) (heap e cid) else heap e k)"
  by (simp add: applyResize_def Let_def split: option.splits)

lemma version_applyResize [simp]:
  "connectionsVersion (applyResize t cid c r e)
     = (if heap e cid = None then connectionsVersion e else connectionsVersion e + 1)"
  by (simp add: applyResize_def Let_def split: option.splits)

lemma published_applyResize:
  "heap e cid = Some conn \<Longrightarrow>
   published (applyResize t cid c r e)
     = published e @ [summary t r_resize (Some [cid]) (modify cid (\<lambda>k. k\<lparr>cols := c, rows := r\<rparr>) e)]"
  by (simp add: applyResize_def Let_def summary_def split: option.splits)

lemma calls_applyResize:
  "heap e cid = Some conn \<Longrightarrow>
   calls (applyResize t cid c r e)
     = calls e @ (case shell conn of None \<Rightarrow> [] | Some _ \<Rightarrow> [shell_setWindow cid r c])
       @ sseCalls (sseSeq e) (summary t r_resize (Some [cid]) (modify cid (\<lambda>k. k\<lparr>cols := c, rows := r\<rparr>) e))
           (sseClients e)"
  by (simp add: applyResize_def Let_def summary_def split: option.splits)

lemma map_filter_modified:
  "(\<And>c. g (f c) = g c) \<Longrightarrow>
   map g (List.map_filter (\<lambda>k. if k = cid then map_option f (h cid) else h k) ks)
     = map g (List.map_filter h ks)"
  by (induction ks) (auto split: option.splits)

lemma views_applyResize:
  "s_connections (connectionsSnapshot t' (applyResize t cid c r e))
     = s_connections (connectionsSnapshot t' e)"
proof -
  have "view (applyResize t cid c r e) (k\<lparr>cols := c, rows := r\<rparr>) = view e k" for k
    by (simp add: view_def)
  moreover have "view (applyResize t cid c r e) = view e"
    by (simp add: view_def fun_eq_iff)
  moreover have "heap (applyResize t cid c r e)
      = (\<lambda>k. if k = cid then map_option (\<lambda>k. k\<lparr>cols := c, rows := r\<rparr>) (heap e cid) else heap e k)"
    by (simp add: fun_eq_iff)
  ultimately show ?thesis
    using map_filter_modified [of "view e" "\<lambda>k. k\<lparr>cols := c, rows := r\<rparr>" cid "heap e" "connections e"]
    by (simp add: connectionsSnapshot_def connections_values_def)
qed

lemma e_closed_fields:
  "connections e_closed = [''a'']"
  "heap e_closed ''a'' = Some (conn0\<lparr>shell := Some 0, state := Closed, lastActivityAt := 3\<rparr>)"
  "map reason (published e_closed) = [r_created, r_state, r_state]"
  "calls e_closed = calls e_ready"
  "sseClients e_closed = []"
  by (simp_all add: e_closed_def stream_on_close_def e_ready_fields conn0_def)

text \<open>
  C6 as stated fails: the views of \<open>connectionsSnapshot\<close> carry no dimensions. Two successful
  resizes of the same session to different sizes are followed by equal snapshots, although
  the stored dimensions differ.
\<close>

theorem snapshot_shows_no_dimensions_counterexample:
  "fst (post_resize 5 ''a'' (Inr (Num 200, Num 50)) e_ready) = \<lparr>status = 200, body = b_resized (Num 200) (Num 50)\<rparr>
   \<and> fst (post_resize 5 ''a'' (Inr (Num 80, Num 24)) e_ready) = \<lparr>status = 200, body = b_resized (Num 80) (Num 24)\<rparr>
   \<and> connectionsSnapshot 9 (snd (post_resize 5 ''a'' (Inr (Num 200, Num 50)) e_ready))
       = connectionsSnapshot 9 (snd (post_resize 5 ''a'' (Inr (Num 80, Num 24)) e_ready))
   \<and> map_option cols (lookup (snd (post_resize 5 ''a'' (Inr (Num 200, Num 50)) e_ready)) ''a'') = Some (Num 200)
   \<and> map_option cols (lookup (snd (post_resize 5 ''a'' (Inr (Num 80, Num 24)) e_ready)) ''a'') = Some (Num 80)"
  by (simp add: post_resize_def lookup_e_ready conn0_def sendJson_def lookup_def e_ready_fields
        connectionsSnapshot_def connections_values_def view_def)

text \<open>
  C6, amended. For a registered session with a shell handle, a resize to finite
  \<open>cols = C\<close>, \<open>rows = R\<close> through the HTTP route answers 200 with \<open>C\<close> and \<open>R\<close> and stores them
  in the session record; the per-session views of a following snapshot are the same as
  before the resize, since a view has no dimension fields.
\<close>

theorem resize_stores_dimensions:
  "lookup e cid = Some conn \<Longrightarrow> shell conn \<noteq> None \<Longrightarrow>
   post_resize t cid (Inr (Num C, Num R)) e = (r, e') \<Longrightarrow>
     r = \<lparr>status = 200, body = b_resized (Num C) (Num R)\<rparr>
     \<and> lookup e' cid = Some (conn\<lparr>cols := Num C, rows := Num R\<rparr>)
     \<and> s_connections (connectionsSnapshot t' e') = s_connections (connectionsSnapshot t' e)"
  by (auto simp add: post_resize_def sendJson_def lookup_def views_applyResize split: if_splits)

theorem resize_stores_dimensions_witness:
  "lookup e_ready ''a'' = Some (conn0\<lparr>shell := Some 0, state := Ready, lastActivityAt := 3\<rparr>)
   \<and> lookup (snd (post_resize 5 ''a'' (Inr (Num 200, Num 50)) e_ready)) ''a''
       = Some (conn0\<lparr>shell := Some 0, state := Ready, lastActivityAt := 3, cols := Num 200, rows := Num 50\<rparr>)
   \<and> fst (post_resize 5 ''a'' (Inr (Num 200, Num 50)) e_ready)
       = \<lparr>status = 200, body = b_resized (Num 200) (Num 50)\<rparr>"
  using resize_stores_dimensions [OF lookup_e_ready, of 5 200 50
          "fst (post_resize 5 ''a'' (Inr (Num 200, Num 50)) e_ready)"
          "snd (post_resize 5 ''a'' (Inr (Num 200, Num 50)) e_ready)"]
        lookup_e_ready
  by simp

lemma fanout_frame:
  "heap (foldl (\<lambda>e' w. if readyState e' w = OPEN then call (ws_send w d) e' else e') e ws) = heap e
   \<and> connections (foldl (\<lambda>e' w. if readyState e' w = OPEN then call (ws_send w d) e' else e') e ws)
       = connections e
   \<and> published (foldl (\<lambda>e' w. if readyState e' w = OPEN then call (ws_send w d) e' else e') e ws)
       = published e"
  by (induction ws arbitrary: e) simp_all

lemma heap_shellWrite [simp]: "heap (shellWrite cid d e) = heap e"
  by (simp add: shellWrite_def split: option.splits)

lemma heap_safeCloseWs [simp]: "heap (safeCloseWs w code why e) = heap e"
  by (simp add: safeCloseWs_def)

lemma heap_ws_message:
  "attached e ws = Some (cid, ro) \<Longrightarrow>
   map_option lastActivityAt (heap (ws_message cfg t ws d e) cid)
     = map_option (\<lambda>_. t) (heap e cid)"
  by (simp add: ws_message_def Let_def touch_def option.map_comp comp_def
        split: option.splits prod.splits)

text \<open>
  C7 as stated fails for the admin route: a resize through \<^verbatim>\<open>POST /connections/{id}/resize\<close>
  at time 100 succeeds and leaves \<open>lastActivityAt\<close> at 3, the time the shell opened.
\<close>

theorem http_resize_is_no_activity_counterexample:
  "fst (post_resize 100 ''a'' (Inr (Num 200, Num 50)) e_ready)
     = \<lparr>status = 200, body = b_resized (Num 200) (Num 50)\<rparr>
   \<and> map_option lastActivityAt (lookup e_ready ''a'') = Some 3
   \<and> map_option lastActivityAt (lookup (snd (post_resize 100 ''a'' (Inr (Num 200, Num 50)) e_ready)) ''a'')
       = Some 3"
  by (simp add: post_resize_def lookup_e_ready conn0_def sendJson_def lookup_def e_ready_fields)

text \<open>
  C7, amended. \<open>lastActivityAt\<close> becomes the current time on a chunk of shell output, on
  every inbound peer frame (so also on a resize sent as a control frame) and on a peer
  attach. \<open>applyResize\<close> itself never writes the field, so a resize through the HTTP admin
  route leaves \<open>lastActivityAt\<close> of every session as it was.
\<close>

theorem activity_triggers:
  "(heap e cid = Some conn \<and> shell conn \<noteq> None \<longrightarrow>
      map_option lastActivityAt (heap (stream_on_data t cid chunk e) cid) = Some t)
   \<and> (attached e ws = Some (cid, ro) \<and> heap e cid = Some conn \<longrightarrow>
      map_option lastActivityAt (heap (ws_message cfg t ws d e) cid) = Some t)
   \<and> (lookup e cid = Some conn \<and> state conn = Ready \<and> shell conn \<noteq> None \<longrightarrow>
      map_option lastActivityAt (heap (upgrade t ws cid ro e) cid) = Some t)
   \<and> map_option lastActivityAt (heap (applyResize t cid c r e) k) = map_option lastActivityAt (heap e k)
   \<and> map_option lastActivityAt (heap (snd (post_resize t cid b e)) k)
       = map_option lastActivityAt (heap e k)"
proof -
  have data: "heap e cid = Some conn \<and> shell conn \<noteq> None \<longrightarrow>
      map_option lastActivityAt (heap (stream_on_data t cid chunk e) cid) = Some t"
    by (auto simp add: stream_on_data_def fanout_frame touch_def)
  have frame: "attached e ws = Some (cid, ro) \<and> heap e cid = Some conn \<longrightarrow>
      map_option lastActivityAt (heap (ws_message cfg t ws d e) cid) = Some t"
    by (simp add: heap_ws_message)
  have attach: "lookup e cid = Some conn \<and> state conn = Ready \<and> shell conn \<noteq> None \<longrightarrow>
      map_option lastActivityAt (heap (upgrade t ws cid ro e) cid) = Some t"
    by (auto simp add: upgrade_def lookup_def attachWebSocket_def Let_def touch_def split: if_splits)
  have resize: "map_option lastActivityAt (heap (applyResize t cid c r e) k)
      = map_option lastActivityAt (heap e k)"
    by (simp add: option.map_comp comp_def)
  have http: "map_option lastActivityAt (heap (snd (post_resize t cid b e)) k)
       = map_option lastActivityAt (heap e k)"
    by (simp add: post_resize_def option.map_comp comp_def split: option.splits sum.splits prod.splits)
  from data frame attach resize http show ?thesis by blast
qed

theorem activity_triggers_witness:
  "map_option lastActivityAt (heap (stream_on_data 9 ''a'' ''x'' e_ready) ''a'') = Some 9
   \<and> map_option lastActivityAt (heap (ws_message cfg0 9 8 (Str ping_frame) e_rw) ''a'') = Some 9
   \<and> map_option lastActivityAt (heap (upgrade 9 8 ''a'' False e_ready) ''a'') = Some 9
   \<and> map_option lastActivityAt (heap (snd (post_resize 9 ''a'' (Inr (Num 200, Num 50)) e_ready)) ''a'')
       = Some 3"
  using activity_triggers [of e_ready "''a''" "conn0\<lparr>shell := Some 0, state := Ready, lastActivityAt := 3\<rparr>"
          9 "''x''" 8 False cfg0 "Str ping_frame" "Num 200" "Num 50" "''a''" "Inr (Num 200, Num 50)"]
        activity_triggers [of e_rw "''a''"
          "conn0\<lparr>shell := Some 0, state := Ready, lastActivityAt := 4, clients := [8]\<rparr>"
          9 "''x''" 8 False cfg0 "Str ping_frame" "Num 200" "Num 50" "''a''" "Inr (Num 200, Num 50)"]
  by (simp add: lookup_e_ready e_ready_fields e_rw_fields conn0_def)

section \<open>The gate of the resize route (C4)\<close>

lemma cns_frame [simp]:
  "connecting_no_shell (call c e) = connecting_no_shell e"
  "connecting_no_shell (bumpAndNotify t why ch e) = connecting_no_shell e"
  "connecting_no_shell (safeCloseWs w code msg e) = connecting_no_shell e"
  "connecting_no_shell (shellWrite cid d e) = connecting_no_shell e"
  "connecting_no_shell (sseSend res s e) = connecting_no_shell e"
  "connecting_no_shell (e\<lparr>connections := cs\<rparr>) = connecting_no_shell e"
  "connecting_no_shell (e\<lparr>sseClients := sc\<rparr>) = connecting_no_shell e"
  "connecting_no_shell (e\<lparr>readyState := rs\<rparr>) = connecting_no_shell e"
  "connecting_no_shell (e\<lparr>attached := a\<rparr>) = connecting_no_shell e"
  "connecting_no_shell (e\<lparr>pending := pd\<rparr>) = connecting_no_shell e"
  by (simp_all add: connecting_no_shell_def sseSend_def Let_def)

lemma cns_modify:
  "connecting_no_shell e \<Longrightarrow>
   \<forall>c. state (f c) = Connecting \<longrightarrow> state c = Connecting \<and> shell (f c) = shell c \<Longrightarrow>
   connecting_no_shell (modify cid f e)"
  unfolding connecting_no_shell_def by (auto split: if_splits)

lemma cns_closeClients:
  "connecting_no_shell e \<Longrightarrow> connecting_no_shell (closeClients cid code why e)"
  unfolding connecting_no_shell_def by (auto split: if_splits)

lemma cns_applyResize:
  "connecting_no_shell e \<Longrightarrow> connecting_no_shell (applyResize t cid c r e)"
  unfolding connecting_no_shell_def by (auto split: if_splits)

lemma cns_terminate:
  "connecting_no_shell e \<Longrightarrow> connecting_no_shell (terminateConnection t cid why rsn e)"
  by (simp add: terminateConnection_def Let_def cns_closeClients cns_modify split: option.splits)

lemma cns_sweep: "connecting_no_shell e \<Longrightarrow> connecting_no_shell (foldl (sweep1 t) e cids)"
  by (induction cids arbitrary: e) (simp_all add: sweep1_def cns_terminate split: option.splits)

lemma cns_fanout:
  "connecting_no_shell (foldl (\<lambda>e' w. if readyState e' w = OPEN then call (ws_send w d) e' else e') e ws)
     = connecting_no_shell e"
  by (simp add: connecting_no_shell_def fanout_frame)

lemma cns_step: "connecting_no_shell e \<Longrightarrow> connecting_no_shell (snd (step cfg e ev))"
proof (cases ev)
  case (PostConnections t cid b)
  assume "connecting_no_shell e"
  then show ?thesis unfolding PostConnections
    by (auto simp add: post_connections_def createConnection_def Let_def connecting_no_shell_def
          newConnection_def split: sum.splits option.splits if_splits)
next
  case (DeleteConnection t cid)
  assume "connecting_no_shell e"
  then show ?thesis unfolding DeleteConnection
    by (simp add: delete_connection_def cns_terminate split: option.splits)
next
  case (PostResize t cid b)
  assume "connecting_no_shell e"
  then show ?thesis unfolding PostResize
    by (simp add: post_resize_def cns_applyResize split: option.splits sum.splits prod.splits)
next
  case (SseOpen t res)
  assume "connecting_no_shell e"
  then show ?thesis unfolding SseOpen by (simp add: handleSse_def Let_def)
next
  case (SseClosed res)
  assume "connecting_no_shell e"
  then show ?thesis unfolding SseClosed by (simp add: sse_cleanup_def)
next
  case (SshReady cid)
  assume "connecting_no_shell e"
  then show ?thesis unfolding SshReady
    by (simp add: ssh_on_ready_def split: option.splits Phase.splits)
next
  case (SshError cid msg)
  assume "connecting_no_shell e"
  then show ?thesis unfolding SshError
    by (simp add: ssh_on_error_def split: option.splits Phase.splits)
next
  case (SshClose t cid)
  assume "connecting_no_shell e"
  then show ?thesis unfolding SshClose
    by (simp add: ssh_on_close_def cns_closeClients cns_modify split: option.splits)
next
  case (ShellCallback t cid r)
  assume "connecting_no_shell e"
  then show ?thesis unfolding ShellCallback
    by (simp add: shell_callback_def Let_def cns_modify touch_def
          split: option.splits Phase.splits sum.splits)
next
  case (StreamData t cid chunk)
  assume "connecting_no_shell e"
  then show ?thesis unfolding StreamData
    by (simp add: stream_on_data_def cns_fanout cns_modify touch_def split: option.splits)
next
  case (StreamClose t cid)
  assume "connecting_no_shell e"
  then show ?thesis unfolding StreamClose
    by (simp add: stream_on_close_def cns_closeClients cns_modify split: option.splits)
next
  case (StreamError t cid)
  assume "connecting_no_shell e"
  then show ?thesis unfolding StreamError
    by (simp add: stream_on_error_def cns_closeClients cns_modify split: option.splits)
next
  case (Upgrade t ws cid ro)
  assume "connecting_no_shell e"
  then show ?thesis unfolding Upgrade
    by (simp add: upgrade_def attachWebSocket_def Let_def cns_modify touch_def
          split: option.splits)
next
  case (WsMessage t ws d)
  assume "connecting_no_shell e"
  then show ?thesis unfolding WsMessage
    by (simp add: ws_message_def Let_def cns_applyResize cns_modify touch_def
          split: option.splits prod.splits)
next
  case (WsClosed t ws)
  assume "connecting_no_shell e"
  then show ?thesis unfolding WsClosed
    by (simp add: ws_cleanup_def cns_modify touch_def split: option.splits prod.splits)
next
  case (SweepTick t)
  assume "connecting_no_shell e"
  then show ?thesis unfolding SweepTick by (simp add: sweep_def cns_sweep)
qed simp_all

lemma reachable_cns: "reachable cfg e \<Longrightarrow> connecting_no_shell e"
proof (induction rule: reachable.induct)
  case reachable_init
  show ?case by (simp add: connecting_no_shell_def)
next
  case (reachable_step e ev)
  then show ?case by (simp add: cns_step)
qed

text \<open>
  C4 as stated fails for a session that is \<open>Closed\<close> and still registered: after the shell
  of \<open>''a''\<close> closed, the resize route answers 200, stores the new dimensions, calls the
  window change and publishes a \<^verbatim>\<open>resize\<close> summary.
\<close>

theorem resize_outside_ready_counterexample:
  "map_option state (lookup e_closed ''a'') = Some Closed
   \<and> fst (post_resize 5 ''a'' (Inr (Num 200, Num 50)) e_closed)
       = \<lparr>status = 200, body = b_resized (Num 200) (Num 50)\<rparr>
   \<and> map_option cols (lookup (snd (post_resize 5 ''a'' (Inr (Num 200, Num 50)) e_closed)) ''a'')
       = Some (Num 200)
   \<and> shell_setWindow ''a'' (Num 50) (Num 200)
       \<in> set (calls (snd (post_resize 5 ''a'' (Inr (Num 200, Num 50)) e_closed)))
   \<and> map reason (published (snd (post_resize 5 ''a'' (Inr (Num 200, Num 50)) e_closed)))
       = [r_created, r_state, r_state, r_resize]"
  by (simp add: post_resize_def lookup_def e_closed_fields conn0_def sendJson_def
        published_applyResize calls_applyResize)

text \<open>
  C4, amended. The resize route is gated on the shell handle, not on the state. For an
  unknown id and for a registered session without a shell handle, which in every reachable
  state includes every \<open>Connecting\<close> session, the route answers 404 and changes nothing: no
  dimension update, no window change, no notification. For a registered session with a
  shell handle and finite \<open>cols\<close> and \<open>rows\<close> the route answers 200 and applies the resize,
  whatever the state.
\<close>

theorem resize_gate:
  "(lookup e cid = None \<or> (\<exists>conn. lookup e cid = Some conn \<and> shell conn = None)
      \<longrightarrow> post_resize t cid b e = (notFound, e))
   \<and> (reachable cfg e \<and> lookup e cid = Some conn \<and> state conn = Connecting
      \<longrightarrow> post_resize t cid b e = (notFound, e))
   \<and> (lookup e cid = Some conn \<and> shell conn \<noteq> None
      \<longrightarrow> post_resize t cid (Inr (Num C, Num R)) e
            = (\<lparr>status = 200, body = b_resized (Num C) (Num R)\<rparr>, applyResize t cid (Num C) (Num R) e))
   \<and> status notFound = 404"
proof -
  have gate: "lookup e cid = None \<or> (\<exists>conn. lookup e cid = Some conn \<and> shell conn = None)
      \<longrightarrow> post_resize t cid b e = (notFound, e)"
    by (auto simp add: post_resize_def)
  have "shell conn = None"
    if "reachable cfg e" "lookup e cid = Some conn" "state conn = Connecting"
    using reachable_cns [OF that(1)] that(2,3)
    by (auto simp add: connecting_no_shell_def lookup_def split: if_splits)
  with gate have connecting: "reachable cfg e \<and> lookup e cid = Some conn \<and> state conn = Connecting
      \<longrightarrow> post_resize t cid b e = (notFound, e)"
    by blast
  have applied: "lookup e cid = Some conn \<and> shell conn \<noteq> None
      \<longrightarrow> post_resize t cid (Inr (Num C, Num R)) e
            = (\<lparr>status = 200, body = b_resized (Num C) (Num R)\<rparr>, applyResize t cid (Num C) (Num R) e)"
    by (auto simp add: post_resize_def sendJson_def)
  have "status notFound = 404"
    by (simp add: notFound_def sendJson_def)
  with gate connecting applied show ?thesis by blast
qed

theorem resize_gate_witness:
  "reachable cfg0 e_connecting \<and> lookup e_connecting ''a'' = Some conn0 \<and> state conn0 = Connecting
   \<and> post_resize 5 ''a'' (Inr (Num 200, Num 50)) e_connecting = (notFound, e_connecting)
   \<and> lookup e_connecting ''zz'' = None
   \<and> post_resize 5 ''zz'' (Inr (Num 200, Num 50)) e_connecting = (notFound, e_connecting)
   \<and> fst (post_resize 5 ''a'' (Inr (Num 200, Num 50)) e_ready)
       = \<lparr>status = 200, body = b_resized (Num 200) (Num 50)\<rparr>"
proof -
  have "reachable cfg0 (snd (step cfg0 init (PostConnections 1 ''a'' (Inr body0))))"
    by (rule reachable_step [OF reachable_init])
  then have r: "reachable cfg0 e_connecting"
    by (simp add: e_connecting_def)
  have l: "lookup e_connecting ''a'' = Some conn0" "lookup e_connecting ''zz'' = None"
    by (simp_all add: lookup_def e_connecting_fields)
  have s: "state conn0 = Connecting" by (simp add: conn0_def)
  show ?thesis
    using resize_gate [of e_connecting "''a''" 5 "Inr (Num 200, Num 50)" cfg0 conn0 200 50]
          resize_gate [of e_connecting "''zz''" 5 "Inr (Num 200, Num 50)" cfg0 conn0 200 50]
          resize_gate [of e_ready "''a''" 5 "Inr (Num 200, Num 50)" cfg0
             "conn0\<lparr>shell := Some 0, state := Ready, lastActivityAt := 3\<rparr>" 200 50]
          r l s lookup_e_ready
    by (simp add: conn0_def)
qed

section \<open>Terminal transitions (C1)\<close>

lemma e_rw_registry:
  "connections e_rw = [''a'']" "sseClients e_rw = []" "pending e_rw ''a'' = Some Settled"
  "readyState e_rw 8 = OPEN"
  by (simp_all add: e_rw_def upgrade_def lookup_e_ready attachWebSocket_def e_ready_fields Let_def
        conn0_def)

lemma terminate_heap:
  assumes "heap e cid = Some conn"
  shows "heap (terminateConnection t cid why rsn e) cid = Some (conn\<lparr>state := Closed, clients := []\<rparr>)"
    and "connections (terminateConnection t cid why rsn e) = filter (\<lambda>k. k \<noteq> cid) (connections e)"
    and "connectionsVersion (terminateConnection t cid why rsn e) = connectionsVersion e + 1"
  using assms
  by (simp_all add: terminateConnection_def Let_def split: option.splits)

lemma terminate_effects:
  assumes "heap e cid = Some conn"
  shows "\<exists>s. published (terminateConnection t cid why rsn e) = published e @ [s]
           \<and> reason s = rsn \<and> changedIds s = Some [cid]
           \<and> calls (terminateConnection t cid why rsn e)
               = calls e @ map (\<lambda>w. ws_close w 1001 why) (clients conn)
                 @ (case shell conn of None \<Rightarrow> [] | Some _ \<Rightarrow> [shell_close cid])
                 @ [ssh_end cid] @ sseCalls (sseSeq e) s (sseClients e)"
proof -
  define E where "E = (let e1 = modify cid (\<lambda>k. k\<lparr>state := Closed\<rparr>) e;
               e2 = closeClients cid 1001 why e1;
               e3 = (case shell conn of None \<Rightarrow> e2 | Some _ \<Rightarrow> call (shell_close cid) e2);
               e4 = call (ssh_end cid) e3
           in e4\<lparr>connections := filter (\<lambda>k. k \<noteq> cid) (connections e4)\<rparr>)"
  have eq: "terminateConnection t cid why rsn e = bumpAndNotify t rsn (Some [cid]) E"
    by (simp add: terminateConnection_def E_def Let_def assms)
  have p: "published E = published e" and q: "sseSeq E = sseSeq e" and c: "sseClients E = sseClients e"
    by (simp_all add: E_def Let_def split: option.splits)
  have k: "calls E = calls e @ map (\<lambda>w. ws_close w 1001 why) (clients conn)
                 @ (case shell conn of None \<Rightarrow> [] | Some _ \<Rightarrow> [shell_close cid]) @ [ssh_end cid]"
    by (cases "shell conn") (simp_all add: E_def Let_def assms)
  show ?thesis
    unfolding eq
    by (rule exI [of _ "summary t rsn (Some [cid]) E"]) (simp add: p q c k)
qed

lemma handler_effects:
  assumes "heap e cid = Some conn"
  shows "\<exists>s. published (bumpAndNotify t r_state (Some [cid])
                 (closeClients cid 1011 why (modify cid (\<lambda>k. k\<lparr>state := st\<rparr>) e)))
               = published e @ [s]
           \<and> reason s = r_state \<and> changedIds s = Some [cid]
           \<and> calls (bumpAndNotify t r_state (Some [cid])
                 (closeClients cid 1011 why (modify cid (\<lambda>k. k\<lparr>state := st\<rparr>) e)))
               = calls e @ map (\<lambda>w. ws_close w 1011 why) (clients conn)
                 @ sseCalls (sseSeq e) s (sseClients e)"
  by (rule exI [of _ "summary t r_state (Some [cid])
                 (closeClients cid 1011 why (modify cid (\<lambda>k. k\<lparr>state := st\<rparr>) e))"])
     (simp add: assms)

lemma released_terminate:
  assumes "lookup e cid = Some conn"
  shows "released e (terminateConnection t cid why rsn e) cid conn why rsn"
proof -
  from assms have h: "heap e cid = Some conn"
    by (simp add: lookup_def split: if_splits)
  show ?thesis
    unfolding released_def
    using terminate_heap(1,2) [OF h, of t why rsn] terminate_effects [OF h, of t why rsn]
    by (simp add: lookup_def)
qed

lemma marked_handler:
  assumes "lookup e cid = Some conn"
  shows "marked e (bumpAndNotify t r_state (Some [cid])
                 (closeClients cid 1011 why (modify cid (\<lambda>k. k\<lparr>state := st\<rparr>) e))) cid conn st why"
proof -
  from assms have h: "heap e cid = Some conn" and r: "cid \<in> set (connections e)"
    by (simp_all add: lookup_def split: if_splits)
  show ?thesis
    unfolding marked_def
    using handler_effects [OF h, of t why st] h r
    by (simp add: lookup_def)
qed

text \<open>
  C1 as stated fails for the three upstream triggers. After the shell of \<open>''a''\<close> closes, or
  errors, or its ssh client closes, the session is terminal and still registered, and
  neither \<^verbatim>\<open>shell.close\<close> nor \<^verbatim>\<open>ssh.end\<close> has been called.
\<close>

theorem upstream_close_keeps_session_counterexample:
  "map_option state (lookup (stream_on_close 5 ''a'' e_rw) ''a'') = Some Closed
   \<and> shell_close ''a'' \<notin> set (calls (stream_on_close 5 ''a'' e_rw))
   \<and> ssh_end ''a'' \<notin> set (calls (stream_on_close 5 ''a'' e_rw))
   \<and> map_option state (lookup (stream_on_error 5 ''a'' e_rw) ''a'') = Some Error
   \<and> ssh_end ''a'' \<notin> set (calls (stream_on_error 5 ''a'' e_rw))
   \<and> map_option state (lookup (ssh_on_close 5 ''a'' e_rw) ''a'') = Some Closed
   \<and> shell_close ''a'' \<notin> set (calls (ssh_on_close 5 ''a'' e_rw))"
  by (simp add: stream_on_close_def stream_on_error_def ssh_on_close_def lookup_def
        e_rw_fields e_rw_registry e_ready_fields conn0_def)

text \<open>
  C1, amended. Every transition of a registered session into a terminal state closes all
  attached peer transports, empties the peer set and publishes exactly one notification.
  On delete and on idle sweep (\<open>terminateConnection\<close>) the peers are closed with code 1001,
  the shell handle is closed, the ssh client is ended and the session leaves the registry.
  On ssh close, shell close and shell error the peers are closed with code 1011 and the
  notification has reason \<^verbatim>\<open>state\<close>; the session stays registered in its terminal state and
  no call is made on the shell or the ssh handle.
\<close>

theorem terminal_transitions:
  assumes "lookup e cid = Some conn"
  shows "released e (snd (delete_connection t cid e)) cid conn ''Deleted'' r_deleted
   \<and> (eligible t e conn \<longrightarrow>
        released e (sweep1 t e cid) cid conn
          (''Idle timeout ('' @ show_int (idleTimeoutMs conn) @ ''ms)'') r_idle_timeout)
   \<and> (pending e cid \<noteq> None \<longrightarrow> marked e (ssh_on_close t cid e) cid conn Closed ''SSH closed'')
   \<and> (shell conn \<noteq> None \<longrightarrow> marked e (stream_on_close t cid e) cid conn Closed ''Shell closed'')
   \<and> (shell conn \<noteq> None \<longrightarrow> marked e (stream_on_error t cid e) cid conn Error ''Shell error'')"
proof -
  from assms have h: "heap e cid = Some conn"
    by (simp add: lookup_def split: if_splits)
  have del: "released e (snd (delete_connection t cid e)) cid conn ''Deleted'' r_deleted"
    using released_terminate [OF assms, of t "''Deleted''" r_deleted]
    by (simp add: delete_connection_def assms)
  have idle: "eligible t e conn \<longrightarrow>
        released e (sweep1 t e cid) cid conn
          (''Idle timeout ('' @ show_int (idleTimeoutMs conn) @ ''ms)'') r_idle_timeout"
    using released_terminate [OF assms, of t _ r_idle_timeout]
    by (simp add: sweep1_def h)
  have ssh: "pending e cid \<noteq> None \<longrightarrow> marked e (ssh_on_close t cid e) cid conn Closed ''SSH closed''"
    using marked_handler [OF assms, of t "''SSH closed''" Closed]
    by (auto simp add: ssh_on_close_def)
  have sc: "shell conn \<noteq> None \<longrightarrow> marked e (stream_on_close t cid e) cid conn Closed ''Shell closed''"
    using marked_handler [OF assms, of t "''Shell closed''" Closed]
    by (simp add: stream_on_close_def h)
  have se: "shell conn \<noteq> None \<longrightarrow> marked e (stream_on_error t cid e) cid conn Error ''Shell error''"
    using marked_handler [OF assms, of t "''Shell error''" Error]
    by (simp add: stream_on_error_def h)
  from del idle ssh sc se show ?thesis by blast
qed

theorem terminal_transitions_witness:
  "lookup e_rw ''a'' = Some (conn0\<lparr>shell := Some 0, state := Ready, lastActivityAt := 4, clients := [8]\<rparr>)
   \<and> pending e_rw ''a'' \<noteq> None
   \<and> eligible 700000 e_ready (conn0\<lparr>shell := Some 0, state := Ready, lastActivityAt := 3\<rparr>)
   \<and> lookup (snd (delete_connection 9 ''a'' e_rw)) ''a'' = None
   \<and> ws_close 8 1001 ''Deleted'' \<in> set (calls (snd (delete_connection 9 ''a'' e_rw)))
   \<and> shell_close ''a'' \<in> set (calls (snd (delete_connection 9 ''a'' e_rw)))
   \<and> ssh_end ''a'' \<in> set (calls (snd (delete_connection 9 ''a'' e_rw)))
   \<and> lookup (sweep1 700000 e_ready ''a'') ''a'' = None
   \<and> map_option state (lookup (ssh_on_close 9 ''a'' e_rw) ''a'') = Some Closed
   \<and> map_option state (lookup (stream_on_close 9 ''a'' e_rw) ''a'') = Some Closed
   \<and> map_option state (lookup (stream_on_error 9 ''a'' e_rw) ''a'') = Some Error
   \<and> ws_close 8 1011 ''Shell error'' \<in> set (calls (stream_on_error 9 ''a'' e_rw))"
proof -
  have l: "lookup e_rw ''a''
       = Some (conn0\<lparr>shell := Some 0, state := Ready, lastActivityAt := 4, clients := [8]\<rparr>)"
    by (simp add: lookup_def e_rw_fields e_rw_registry)
  have p: "pending e_rw ''a'' \<noteq> None"
    by (simp add: e_rw_registry)
  have el: "eligible 700000 e_ready (conn0\<lparr>shell := Some 0, state := Ready, lastActivityAt := 3\<rparr>)"
    by (simp add: eligible_def conn0_def)
  have sh: "shell (conn0\<lparr>shell := Some 0, state := Ready, lastActivityAt := 4, clients := [8]\<rparr>) \<noteq> None"
    by simp
  from terminal_transitions [OF l, of 9] p sh
  have a: "released e_rw (snd (delete_connection 9 ''a'' e_rw)) ''a''
             (conn0\<lparr>shell := Some 0, state := Ready, lastActivityAt := 4, clients := [8]\<rparr>)
             ''Deleted'' r_deleted"
    and b: "marked e_rw (ssh_on_close 9 ''a'' e_rw) ''a''
             (conn0\<lparr>shell := Some 0, state := Ready, lastActivityAt := 4, clients := [8]\<rparr>)
             Closed ''SSH closed''"
    and c: "marked e_rw (stream_on_close 9 ''a'' e_rw) ''a''
             (conn0\<lparr>shell := Some 0, state := Ready, lastActivityAt := 4, clients := [8]\<rparr>)
             Closed ''Shell closed''"
    and d: "marked e_rw (stream_on_error 9 ''a'' e_rw) ''a''
             (conn0\<lparr>shell := Some 0, state := Ready, lastActivityAt := 4, clients := [8]\<rparr>)
             Error ''Shell error''"
    by blast+
  from terminal_transitions [OF lookup_e_ready, of 700000] el
  have s: "released e_ready (sweep1 700000 e_ready ''a'') ''a''
             (conn0\<lparr>shell := Some 0, state := Ready, lastActivityAt := 3\<rparr>)
             (''Idle timeout ('' @ show_int (idleTimeoutMs
                (conn0\<lparr>shell := Some 0, state := Ready, lastActivityAt := 3\<rparr>)) @ ''ms)'')
             r_idle_timeout"
    by blast
  from a have a': "lookup (snd (delete_connection 9 ''a'' e_rw)) ''a'' = None
     \<and> ws_close 8 1001 ''Deleted'' \<in> set (calls (snd (delete_connection 9 ''a'' e_rw)))
     \<and> shell_close ''a'' \<in> set (calls (snd (delete_connection 9 ''a'' e_rw)))
     \<and> ssh_end ''a'' \<in> set (calls (snd (delete_connection 9 ''a'' e_rw)))"
    by (auto simp add: released_def)
  from s have s': "lookup (sweep1 700000 e_ready ''a'') ''a'' = None"
    by (simp add: released_def)
  from b c d have m: "map_option state (lookup (ssh_on_close 9 ''a'' e_rw) ''a'') = Some Closed
     \<and> map_option state (lookup (stream_on_close 9 ''a'' e_rw) ''a'') = Some Closed
     \<and> map_option state (lookup (stream_on_error 9 ''a'' e_rw) ''a'') = Some Error
     \<and> ws_close 8 1011 ''Shell error'' \<in> set (calls (stream_on_error 9 ''a'' e_rw))"
    by (auto simp add: marked_def)
  from l p el a' s' m show ?thesis by blast
qed

section \<open>Idle sweeper (C8)\<close>

lemma terminate_none [simp]: "heap e cid = None \<Longrightarrow> terminateConnection t cid why rsn e = e"
  by (simp add: terminateConnection_def)

lemma readyState_terminate [simp]:
  "readyState (terminateConnection t cid why rsn e) = readyState e"
  by (simp add: terminateConnection_def Let_def split: option.splits)

lemma heap_terminate:
  "heap (terminateConnection t cid why rsn e) k
     = (if k = cid then map_option (\<lambda>c. c\<lparr>state := Closed, clients := []\<rparr>) (heap e cid) else heap e k)"
  by (simp add: terminateConnection_def Let_def option.map_comp comp_def split: option.splits)

lemma tags_terminate:
  "heap e cid = Some conn \<Longrightarrow>
   map tag (published (terminateConnection t cid why rsn e)) = map tag (published e) @ [(rsn, Some [cid])]"
  by (simp add: terminateConnection_def Let_def tag_def split: option.splits)

lemma sweep1_facts:
  "readyState (sweep1 t e cid) = readyState e"
  "heap (sweep1 t e cid) k
     = (if k = cid \<and> idle t e cid
        then map_option (\<lambda>c. c\<lparr>state := Closed, clients := []\<rparr>) (heap e cid) else heap e k)"
  "connections (sweep1 t e cid)
     = (if idle t e cid then filter (\<lambda>k. k \<noteq> cid) (connections e) else connections e)"
  "map tag (published (sweep1 t e cid))
     = map tag (published e) @ (if idle t e cid then [(r_idle_timeout, Some [cid])] else [])"
  by (simp_all add: sweep1_def idle_def heap_terminate terminate_heap tags_terminate
        split: option.splits)

lemma idle_sweep1: "k \<noteq> cid \<Longrightarrow> idle t (sweep1 t e cid) k = idle t e k"
  by (simp add: idle_def sweep1_facts eligible_def split: option.splits)

lemma sweep_fold:
  "distinct cids \<Longrightarrow>
   readyState (foldl (sweep1 t) e cids) = readyState e
   \<and> (\<forall>k. heap (foldl (sweep1 t) e cids) k
          = (if k \<in> set cids \<and> idle t e k
             then map_option (\<lambda>c. c\<lparr>state := Closed, clients := []\<rparr>) (heap e k) else heap e k))
   \<and> connections (foldl (sweep1 t) e cids)
       = filter (\<lambda>k. \<not> (k \<in> set cids \<and> idle t e k)) (connections e)
   \<and> map tag (published (foldl (sweep1 t) e cids))
       = map tag (published e) @ map (\<lambda>cid. (r_idle_timeout, Some [cid])) (filter (idle t e) cids)"
proof (induction cids arbitrary: e)
  case Nil
  show ?case by simp
next
  case (Cons c cs)
  from Cons.prems have d: "distinct cs" and n: "c \<notin> set cs" by simp_all
  have same: "idle t (sweep1 t e c) k = idle t e k" if "k \<in> set cs" for k
    using that n idle_sweep1 [of k c t e] by auto
  have f: "filter (idle t (sweep1 t e c)) cs = filter (idle t e) cs"
    by (rule filter_cong) (simp_all add: same)
  note IH = Cons.IH [OF d, of "sweep1 t e c"]
  have rs: "readyState (foldl (sweep1 t) e (c # cs)) = readyState e"
    using IH by (simp add: sweep1_facts)
  have hp: "heap (foldl (sweep1 t) e (c # cs)) k
          = (if k \<in> set (c # cs) \<and> idle t e k
             then map_option (\<lambda>c. c\<lparr>state := Closed, clients := []\<rparr>) (heap e k) else heap e k)" for k
    using IH n same [of k] by (auto simp add: sweep1_facts)
  have cn: "connections (foldl (sweep1 t) e (c # cs))
       = filter (\<lambda>k. \<not> (k \<in> set (c # cs) \<and> idle t e k)) (connections e)"
  proof -
    have "connections (foldl (sweep1 t) e (c # cs))
        = filter (\<lambda>k. \<not> (k \<in> set cs \<and> idle t (sweep1 t e c) k)) (connections (sweep1 t e c))"
      using IH by simp
    also have "\<dots> = filter (\<lambda>k. \<not> (k \<in> set cs \<and> idle t e k)) (connections (sweep1 t e c))"
      by (rule filter_cong) (auto simp add: same)
    also have "\<dots> = filter (\<lambda>k. \<not> (k \<in> set (c # cs) \<and> idle t e k)) (connections e)"
      by (auto simp add: sweep1_facts intro: filter_cong)
    finally show ?thesis .
  qed
  have pb: "map tag (published (foldl (sweep1 t) e (c # cs)))
       = map tag (published e) @ map (\<lambda>cid. (r_idle_timeout, Some [cid])) (filter (idle t e) (c # cs))"
    using IH by (simp add: sweep1_facts f)
  from rs hp cn pb show ?case by blast
qed

lemma e_two_fields:
  "connections e_two = [''a'', ''b'']"
  "heap e_two ''a'' = Some (conn0\<lparr>shell := Some 0, state := Ready, lastActivityAt := 3\<rparr>)"
  "heap e_two ''b'' = Some (conn0\<lparr>conn_id := ''b'', createdAt := 500000, lastActivityAt := 500000\<rparr>)"
  by (simp_all add: e_two_def post_connections_def createConnection_def cfg2_def cfg0_def body0_def
        newConnection_def conn0_def Let_def e_ready_fields)

lemma connections_terminate:
  "connections (terminateConnection t cid why rsn e)
     = (if heap e cid = None then connections e else filter (\<lambda>k. k \<noteq> cid) (connections e))"
  by (simp add: terminateConnection_def Let_def split: option.splits)

lemma distinct_sweep: "distinct (connections e) \<Longrightarrow> distinct (connections (foldl (sweep1 t) e cids))"
  by (induction cids arbitrary: e) (simp_all add: sweep1_facts)

lemma connections_shellWrite [simp]: "connections (shellWrite cid d e) = connections e"
  by (simp add: shellWrite_def split: option.splits)

lemma connections_safeCloseWs [simp]: "connections (safeCloseWs w code why e) = connections e"
  by (simp add: safeCloseWs_def)

lemma distinct_step: "distinct (connections e) \<Longrightarrow> distinct (connections (snd (step cfg e ev)))"
proof (cases ev)
  case (PostConnections t cid b)
  assume "distinct (connections e)"
  then show ?thesis unfolding PostConnections
    by (simp add: post_connections_def createConnection_def Let_def
          split: sum.splits option.splits)
next
  case (DeleteConnection t cid)
  assume "distinct (connections e)"
  then show ?thesis unfolding DeleteConnection
    by (simp add: delete_connection_def connections_terminate split: option.splits)
next
  case (PostResize t cid b)
  assume "distinct (connections e)"
  then show ?thesis unfolding PostResize
    by (simp add: post_resize_def split: option.splits sum.splits prod.splits)
next
  case (SseOpen t res)
  assume "distinct (connections e)"
  then show ?thesis unfolding SseOpen by (simp add: handleSse_def sseSend_def Let_def)
next
  case (SseClosed res)
  assume "distinct (connections e)"
  then show ?thesis unfolding SseClosed by (simp add: sse_cleanup_def)
next
  case (SshReady cid)
  assume "distinct (connections e)"
  then show ?thesis unfolding SshReady
    by (simp add: ssh_on_ready_def split: option.splits Phase.splits)
next
  case (SshError cid msg)
  assume "distinct (connections e)"
  then show ?thesis unfolding SshError
    by (simp add: ssh_on_error_def split: option.splits Phase.splits)
next
  case (SshClose t cid)
  assume "distinct (connections e)"
  then show ?thesis unfolding SshClose
    by (simp add: ssh_on_close_def split: option.splits)
next
  case (ShellCallback t cid r)
  assume "distinct (connections e)"
  then show ?thesis unfolding ShellCallback
    by (simp add: shell_callback_def Let_def split: option.splits Phase.splits sum.splits)
next
  case (StreamData t cid chunk)
  assume "distinct (connections e)"
  then show ?thesis unfolding StreamData
    by (simp add: stream_on_data_def fanout_frame split: option.splits)
next
  case (StreamClose t cid)
  assume "distinct (connections e)"
  then show ?thesis unfolding StreamClose
    by (simp add: stream_on_close_def split: option.splits)
next
  case (StreamError t cid)
  assume "distinct (connections e)"
  then show ?thesis unfolding StreamError
    by (simp add: stream_on_error_def split: option.splits)
next
  case (Upgrade t ws cid ro)
  assume "distinct (connections e)"
  then show ?thesis unfolding Upgrade
    by (simp add: upgrade_def attachWebSocket_def Let_def split: option.splits)
next
  case (WsMessage t ws d)
  assume "distinct (connections e)"
  then show ?thesis unfolding WsMessage
    by (simp add: ws_message_def Let_def split: option.splits prod.splits)
next
  case (WsClosed t ws)
  assume "distinct (connections e)"
  then show ?thesis unfolding WsClosed
    by (simp add: ws_cleanup_def split: option.splits prod.splits)
next
  case (SweepTick t)
  assume "distinct (connections e)"
  then show ?thesis unfolding SweepTick by (simp add: sweep_def distinct_sweep)
qed simp_all

text \<open>The keys of the registry are distinct in every reachable state, as those of a
  \<^verbatim>\<open>Map\<close> are.\<close>

lemma reachable_distinct: "reachable cfg e \<Longrightarrow> distinct (connections e)"
proof (induction rule: reachable.induct)
  case reachable_init
  show ?case by simp
next
  case (reachable_step e ev)
  then show ?case by (simp add: distinct_step)
qed

text \<open>
  C8. On a sweeper tick at time \<open>t\<close> over a registry with distinct keys, a session is
  terminated if and only if it is \<open>idle\<close>: its object has no attached peer whose transport
  is OPEN, and \<open>t - lastActivityAt\<close> strictly exceeds its \<open>idleTimeoutMs\<close>. The keys left in
  the registry are the ones that are not idle, the objects of those sessions are unchanged,
  every idle session becomes \<open>Closed\<close> with no peers, and the tick publishes one summary
  with reason \<^verbatim>\<open>idle-timeout\<close> for each idle session, in registry order, and no other.
  The keys are distinct in every reachable state (\<open>reachable_distinct\<close>).
\<close>

theorem sweep_reaps_exactly_the_idle:
  assumes "distinct (connections e)"
  shows "connections (sweep t e) = filter (\<lambda>cid. \<not> idle t e cid) (connections e)
   \<and> (\<forall>cid. \<not> idle t e cid \<longrightarrow> heap (sweep t e) cid = heap e cid)
   \<and> (\<forall>cid \<in> set (connections e). idle t e cid \<longrightarrow>
         heap (sweep t e) cid = map_option (\<lambda>c. c\<lparr>state := Closed, clients := []\<rparr>) (heap e cid))
   \<and> map tag (drop (length (published e)) (published (sweep t e)))
       = map (\<lambda>cid. (r_idle_timeout, Some [cid])) (filter (idle t e) (connections e))
   \<and> (idle t e k \<longleftrightarrow>
         (\<exists>conn. heap e k = Some conn
            \<and> \<not> (\<exists>ws \<in> set (clients conn). readyState e ws = OPEN)
            \<and> t - lastActivityAt conn > idleTimeoutMs conn))"
proof -
  note F = sweep_fold [OF assms, of t e]
  have cn: "connections (sweep t e) = filter (\<lambda>cid. \<not> idle t e cid) (connections e)"
  proof -
    have "connections (sweep t e)
        = filter (\<lambda>k. \<not> (k \<in> set (connections e) \<and> idle t e k)) (connections e)"
      using F by (simp add: sweep_def)
    also have "\<dots> = filter (\<lambda>cid. \<not> idle t e cid) (connections e)"
      by (rule filter_cong) simp_all
    finally show ?thesis .
  qed
  have keep: "\<forall>cid. \<not> idle t e cid \<longrightarrow> heap (sweep t e) cid = heap e cid"
    using F by (simp add: sweep_def)
  have reap: "\<forall>cid \<in> set (connections e). idle t e cid \<longrightarrow>
         heap (sweep t e) cid = map_option (\<lambda>c. c\<lparr>state := Closed, clients := []\<rparr>) (heap e cid)"
    using F by (simp add: sweep_def)
  have "map tag (published (sweep t e))
      = map tag (published e) @ map (\<lambda>cid. (r_idle_timeout, Some [cid])) (filter (idle t e) (connections e))"
    using F by (simp add: sweep_def)
  then have "drop (length (published e)) (map tag (published (sweep t e)))
      = map (\<lambda>cid. (r_idle_timeout, Some [cid])) (filter (idle t e) (connections e))"
    by simp
  then have pb: "map tag (drop (length (published e)) (published (sweep t e)))
       = map (\<lambda>cid. (r_idle_timeout, Some [cid])) (filter (idle t e) (connections e))"
    by (simp add: drop_map)
  have cond: "idle t e k \<longleftrightarrow>
         (\<exists>conn. heap e k = Some conn
            \<and> \<not> (\<exists>ws \<in> set (clients conn). readyState e ws = OPEN)
            \<and> t - lastActivityAt conn > idleTimeoutMs conn)"
    by (simp add: idle_def eligible_def list_ex_iff split: option.splits)
  from cn keep reap pb cond show ?thesis by blast
qed

theorem sweep_reaps_exactly_the_idle_witness:
  "distinct (connections e_two)
   \<and> idle 700000 e_two ''a'' \<and> \<not> idle 700000 e_two ''b''
   \<and> connections (sweep 700000 e_two) = [''b'']
   \<and> heap (sweep 700000 e_two) ''b'' = heap e_two ''b''
   \<and> map_option state (heap (sweep 700000 e_two) ''a'') = Some Closed
   \<and> map tag (drop (length (published e_two)) (published (sweep 700000 e_two)))
       = [(r_idle_timeout, Some [''a''])]"
proof -
  have d: "distinct (connections e_two)"
    by (simp add: e_two_fields)
  have a: "idle 700000 e_two ''a''" and b: "\<not> idle 700000 e_two ''b''"
    by (simp_all add: idle_def eligible_def e_two_fields conn0_def)
  from sweep_reaps_exactly_the_idle [OF d, of 700000] a b d show ?thesis
    by (simp add: e_two_fields conn0_def)
qed

section \<open>The password (C9)\<close>

lemma hide_fields [simp]:
  "connections (hide e) = connections e"
  "heap (hide e) = heap e"
  "connectionsVersion (hide e) = connectionsVersion e"
  "sseClients (hide e) = sseClients e"
  "sseSeq (hide e) = sseSeq e"
  "readyState (hide e) = readyState e"
  "attached (hide e) = attached e"
  "pending (hide e) = pending e"
  "published (hide e) = published e"
  "calls (hide e) = map redact (calls e)"
  by (simp_all add: hide_def)

lemma redact_idem [simp]: "redact (redact c) = redact c"
  by (cases c) simp_all

lemma hide_idem [simp]: "hide (hide e) = hide e"
  by (simp add: hide_def comp_def)

lemma hide_updates [simp]:
  "hide (e\<lparr>connections := cs\<rparr>) = (hide e)\<lparr>connections := cs\<rparr>"
  "hide (e\<lparr>heap := h\<rparr>) = (hide e)\<lparr>heap := h\<rparr>"
  "hide (e\<lparr>connectionsVersion := v\<rparr>) = (hide e)\<lparr>connectionsVersion := v\<rparr>"
  "hide (e\<lparr>sseClients := sc\<rparr>) = (hide e)\<lparr>sseClients := sc\<rparr>"
  "hide (e\<lparr>sseSeq := q\<rparr>) = (hide e)\<lparr>sseSeq := q\<rparr>"
  "hide (e\<lparr>readyState := rs\<rparr>) = (hide e)\<lparr>readyState := rs\<rparr>"
  "hide (e\<lparr>attached := a\<rparr>) = (hide e)\<lparr>attached := a\<rparr>"
  "hide (e\<lparr>pending := pd\<rparr>) = (hide e)\<lparr>pending := pd\<rparr>"
  "hide (e\<lparr>published := pb\<rparr>) = (hide e)\<lparr>published := pb\<rparr>"
  by (simp_all add: hide_def)

lemma hide_same_connections [simp]: "(hide e)\<lparr>connections := connections e\<rparr> = hide e"
  by (simp add: hide_def)

lemma hide_call [simp]: "hide (call c e) = call (redact c) (hide e)"
  by (simp add: hide_def call_def)

lemma hide_modify [simp]: "hide (modify cid f e) = modify cid f (hide e)"
  by (simp add: modify_def split: option.splits)

lemma hide_safeCloseWs [simp]: "hide (safeCloseWs w code why e) = safeCloseWs w code why (hide e)"
  by (simp add: safeCloseWs_def)

lemma computeCounts_hide [simp]: "computeCounts (hide e) = computeCounts e"
  by (simp add: hide_def)

lemma hide_sseSend [simp]: "hide (sseSend res s e) = sseSend res s (hide e)"
  by (simp add: sseSend_def Let_def)

lemma hide_sse_fold:
  "hide (foldl (\<lambda>e' res. sseSend res s e') e rs) = foldl (\<lambda>e' res. sseSend res s e') (hide e) rs"
  by (induction rs arbitrary: e) simp_all

lemma hide_bump [simp]: "hide (bumpAndNotify t why ch e) = bumpAndNotify t why ch (hide e)"
  by (simp add: bumpAndNotify_def Let_def hide_sse_fold)

lemma hide_close_fold:
  "hide (foldl (\<lambda>e' w. safeCloseWs w code why e') e ws)
     = foldl (\<lambda>e' w. safeCloseWs w code why e') (hide e) ws"
  by (induction ws arbitrary: e) simp_all

lemma hide_closeClients [simp]:
  "hide (closeClients cid code why e) = closeClients cid code why (hide e)"
  by (simp add: closeClients_def hide_close_fold split: option.splits)

lemma hide_terminate [simp]:
  "hide (terminateConnection t cid why rsn e) = terminateConnection t cid why rsn (hide e)"
  by (simp add: terminateConnection_def Let_def split: option.splits)

lemma hide_applyResize [simp]:
  "hide (applyResize t cid c r e) = applyResize t cid c r (hide e)"
  by (simp add: applyResize_def Let_def split: option.splits)

lemma hide_shellWrite [simp]: "hide (shellWrite cid d e) = shellWrite cid d (hide e)"
  by (simp add: shellWrite_def split: option.splits)

lemma hide_sweep1 [simp]: "hide (sweep1 t e cid) = sweep1 t (hide e) cid"
  by (simp add: sweep1_def eligible_def split: option.splits)

lemma hide_sweep_fold: "hide (foldl (sweep1 t) e cids) = foldl (sweep1 t) (hide e) cids"
  by (induction cids arbitrary: e) simp_all

lemma hide_fanout:
  "hide (foldl (\<lambda>e' w. if readyState e' w = OPEN then call (ws_send w d) e' else e') e ws)
     = foldl (\<lambda>e' w. if readyState e' w = OPEN then call (ws_send w d) e' else e') (hide e) ws"
  by (induction ws arbitrary: e) simp_all

lemma lookup_hide [simp]: "lookup (hide e) cid = lookup e cid"
  by (simp add: lookup_def)

lemma snapshot_hide [simp]: "connectionsSnapshot t (hide e) = connectionsSnapshot t e"
  by (simp add: connectionsSnapshot_def connections_values_def view_def fun_eq_iff)

lemma hide_create:
  "map_sum id hide (createConnection cfg t cid p e)
     = map_sum id hide (createConnection cfg t cid (p\<lparr>p_password := pw\<rparr>) (hide e))"
  by (simp add: createConnection_def Let_def newConnection_def)

lemma set_password_twice [simp]: "set_password pw (set_password pw' ev) = set_password pw ev"
proof (cases ev)
  case (PostConnections t cid b)
  then show ?thesis by (cases b) (simp_all add: option.map_comp comp_def)
qed simp_all

lemma step_hide: "apsnd hide (step cfg e ev) = apsnd hide (step cfg (hide e) (set_password pw ev))"
proof (cases ev)
  case (PostConnections t cid b)
  show ?thesis
  proof (cases b)
    case (Inl msg)
    then show ?thesis unfolding PostConnections by (simp add: post_connections_def)
  next
    case (Inr bd)
    then show ?thesis unfolding PostConnections
      by (simp add: post_connections_def createConnection_def Let_def newConnection_def
            split: option.splits)
  qed
next
  case (GetConnections t)
  then show ?thesis by (simp add: get_connections_def)
next
  case (DeleteConnection t cid)
  then show ?thesis by (simp add: delete_connection_def split: option.splits)
next
  case (PostResize t cid b)
  then show ?thesis
    by (simp add: post_resize_def split: option.splits sum.splits prod.splits)
next
  case (SseOpen t res)
  then show ?thesis by (simp add: handleSse_def Let_def)
next
  case (SseClosed res)
  then show ?thesis by (simp add: sse_cleanup_def)
next
  case (SshReady cid)
  then show ?thesis by (simp add: ssh_on_ready_def split: option.splits Phase.splits)
next
  case (SshError cid msg)
  then show ?thesis by (simp add: ssh_on_error_def split: option.splits Phase.splits)
next
  case (SshClose t cid)
  then show ?thesis by (simp add: ssh_on_close_def split: option.splits)
next
  case (ShellCallback t cid r)
  then show ?thesis
    by (simp add: shell_callback_def Let_def split: option.splits Phase.splits sum.splits)
next
  case (StreamData t cid chunk)
  then show ?thesis by (simp add: stream_on_data_def hide_fanout split: option.splits)
next
  case (StreamClose t cid)
  then show ?thesis by (simp add: stream_on_close_def split: option.splits)
next
  case (StreamError t cid)
  then show ?thesis by (simp add: stream_on_error_def split: option.splits)
next
  case (Upgrade t ws cid ro)
  then show ?thesis
    by (simp add: upgrade_def attachWebSocket_def Let_def split: option.splits)
next
  case (WsMessage t ws d)
  then show ?thesis
    by (simp add: ws_message_def Let_def split: option.splits prod.splits)
next
  case (WsClosed t ws)
  then show ?thesis by (simp add: ws_cleanup_def split: option.splits prod.splits)
next
  case (WsReadyState ws rs)
  then show ?thesis by simp
next
  case (SweepTick t)
  then show ?thesis by (simp add: sweep_def hide_sweep_fold)
qed

lemma step_hide2:
  assumes "hide e1 = hide e2"
  shows "apsnd hide (step cfg e1 (set_password pw1 ev)) = apsnd hide (step cfg e2 (set_password pw2 ev))"
proof -
  have "apsnd hide (step cfg e1 (set_password pw1 ev)) = apsnd hide (step cfg (hide e1) (set_password [] ev))"
    using step_hide [of cfg e1 "set_password pw1 ev" "[]"] by simp
  moreover
  have "apsnd hide (step cfg e2 (set_password pw2 ev)) = apsnd hide (step cfg (hide e2) (set_password [] ev))"
    using step_hide [of cfg e2 "set_password pw2 ev" "[]"] by simp
  ultimately show ?thesis using assms by simp
qed

lemma run_hide:
  "hide e1 = hide e2 \<Longrightarrow>
   apsnd hide (run cfg e1 (map (set_password pw1) evs)) = apsnd hide (run cfg e2 (map (set_password pw2) evs))"
proof (induction evs arbitrary: e1 e2)
  case Nil
  then show ?case by simp
next
  case (Cons ev evs)
  obtain r1 a1 where s1: "step cfg e1 (set_password pw1 ev) = (r1, a1)" by (cases "step cfg e1 (set_password pw1 ev)")
  obtain r2 a2 where s2: "step cfg e2 (set_password pw2 ev) = (r2, a2)" by (cases "step cfg e2 (set_password pw2 ev)")
  from step_hide2 [OF Cons.prems, of cfg pw1 ev pw2] s1 s2
  have r: "r1 = r2" and a: "hide a1 = hide a2" by simp_all
  obtain rs1 b1 where t1: "run cfg a1 (map (set_password pw1) evs) = (rs1, b1)"
    by (cases "run cfg a1 (map (set_password pw1) evs)")
  obtain rs2 b2 where t2: "run cfg a2 (map (set_password pw2) evs) = (rs2, b2)"
    by (cases "run cfg a2 (map (set_password pw2) evs)")
  from Cons.IH [OF a] t1 t2 have "rs1 = rs2" and "hide b1 = hide b2" by simp_all
  with r s1 s2 t1 t2 show ?case by simp
qed

text \<open>
  C9. Take any run of the engine from any state and replace the password supplied in its
  create requests by another one, everything else being the same. The two runs send the
  same responses (create responses and snapshots among them), publish the same summaries
  and give the same snapshot at any time; their final states are equal up to the password
  argument of the logged \<^verbatim>\<open>ssh.connect\<close> calls. The connection record has no field for the
  password: \<open>meta\<close> is host, port and username.
\<close>

theorem password_not_observable:
  "fst (run cfg e (map (set_password pw1) evs)) = fst (run cfg e (map (set_password pw2) evs))
   \<and> hide (snd (run cfg e (map (set_password pw1) evs)))
       = hide (snd (run cfg e (map (set_password pw2) evs)))
   \<and> published (snd (run cfg e (map (set_password pw1) evs)))
       = published (snd (run cfg e (map (set_password pw2) evs)))
   \<and> connectionsSnapshot t (snd (run cfg e (map (set_password pw1) evs)))
       = connectionsSnapshot t (snd (run cfg e (map (set_password pw2) evs)))"
proof -
  have "apsnd hide (run cfg e (map (set_password pw1) evs))
      = apsnd hide (run cfg e (map (set_password pw2) evs))"
    by (rule run_hide) simp
  then have r: "fst (run cfg e (map (set_password pw1) evs)) = fst (run cfg e (map (set_password pw2) evs))"
    and h: "hide (snd (run cfg e (map (set_password pw1) evs)))
       = hide (snd (run cfg e (map (set_password pw2) evs)))"
    by (simp_all add: apsnd_def map_prod_def split_beta)
  from h have p: "published (snd (run cfg e (map (set_password pw1) evs)))
       = published (snd (run cfg e (map (set_password pw2) evs)))"
    using hide_fields(9) by metis
  from h have s: "connectionsSnapshot t (snd (run cfg e (map (set_password pw1) evs)))
       = connectionsSnapshot t (snd (run cfg e (map (set_password pw2) evs)))"
    using snapshot_hide by metis
  from r h p s show ?thesis by blast
qed

theorem password_not_observable_witness:
  "calls (snd (run cfg0 init (map (set_password ''p'') [PostConnections 1 ''a'' (Inr body0)])))
     = [ssh_connect ''a'' ''h'' (Num 22) ''u'' ''p'']
   \<and> calls (snd (run cfg0 init (map (set_password ''q'') [PostConnections 1 ''a'' (Inr body0)])))
     = [ssh_connect ''a'' ''h'' (Num 22) ''u'' ''q'']
   \<and> published (snd (run cfg0 init (map (set_password ''p'') [PostConnections 1 ''a'' (Inr body0)])))
     = published (snd (run cfg0 init (map (set_password ''q'') [PostConnections 1 ''a'' (Inr body0)])))
   \<and> connectionsSnapshot 2 (snd (run cfg0 init (map (set_password ''p'') [PostConnections 1 ''a'' (Inr body0)])))
     = connectionsSnapshot 2 (snd (run cfg0 init (map (set_password ''q'') [PostConnections 1 ''a'' (Inr body0)])))"
proof -
  have c: "calls (snd (run cfg0 init (map (set_password pw) [PostConnections 1 ''a'' (Inr body0)])))
     = [ssh_connect ''a'' ''h'' (Num 22) ''u'' pw]" for pw
    by (simp add: post_connections_def createConnection_def cfg0_def body0_def Let_def split_beta)
  from password_not_observable [of cfg0 init "''p''" "[PostConnections 1 ''a'' (Inr body0)]" "''q''" 2]
       c [of "''p''"] c [of "''q''"]
  show ?thesis by simp
qed

end
